theory Spec2Isabelle
  imports Main "HOL-Library.AList"
begin

unbundle bit_operations_syntax

section \<open>Python values, exceptions and strings\<close>

text \<open>
  The image pipeline of \<^verbatim>\<open>spm_worker/process_images.py\<close> (class \<^verbatim>\<open>ProcessImages\<close>) is
  embedded as pure functions over an explicit file system. A Python call either returns
  a value (\<open>Inr\<close>) or raises (\<open>Inl\<close>). The exceptions below are all subclasses of
  \<^verbatim>\<open>Exception\<close>, so each \<^verbatim>\<open>except (..., Exception)\<close> clause of the source catches
  every one of them. Strings are lists of bytes (the UTF-8 encoding of a Python \<^verbatim>\<open>str\<close>).
\<close>

datatype exn = AttributeError | TypeError | KeyError | ValueError | OSError

text \<open>
  The Python values that can be passed where the source expects a string, a boolean or a
  dictionary of tag data. The keys of a dictionary are strings.
\<close>

datatype pyval =
  PyNone
| PyBool bool
| PyInt int
| PyStr string
| PyList "pyval list"
| PyDict "(string \<times> pyval) list"

text \<open>
  \<^verbatim>\<open>value[key]\<close> for a string key: the entry of a dictionary, \<^verbatim>\<open>KeyError\<close> when it has
  none, and \<^verbatim>\<open>TypeError\<close> on every other value (\<^verbatim>\<open>None\<close>, booleans and integers are not
  subscriptable; a string and a list take integer indices).
\<close>

definition py_getitem :: "pyval \<Rightarrow> string \<Rightarrow> exn + pyval" where
  "py_getitem v key =
     (case v of
        PyDict entries \<Rightarrow> (case map_of entries key of None \<Rightarrow> Inl KeyError | Some x \<Rightarrow> Inr x)
      | _ \<Rightarrow> Inl TypeError)"

text \<open>\<^verbatim>\<open>try: body  except (..., Exception): return fallback\<close>\<close>

definition try_except :: "exn + 'a \<Rightarrow> 'a \<Rightarrow> exn + 'a" where
  "try_except body fallback = (case body of Inl e \<Rightarrow> Inr fallback | Inr v \<Rightarrow> Inr v)"

text \<open>
  \<^verbatim>\<open>str.lower()\<close>. Only the ASCII letters are mapped; every other byte is kept. The source
  uses the lowered string for nothing but a membership test in a list of ASCII words, and
  no character outside ASCII lowers to one of the letters of these words, so the test has
  the same outcome as in Python.
\<close>

definition lower_char :: "char \<Rightarrow> char" where
  "lower_char c =
     (case map_of (zip ''ABCDEFGHIJKLMNOPQRSTUVWXYZ'' ''abcdefghijklmnopqrstuvwxyz'') c of
        Some l \<Rightarrow> l
      | None \<Rightarrow> c)"

definition py_lower :: "string \<Rightarrow> string" where
  "py_lower s = map lower_char s"

text \<open>\<^verbatim>\<open>p.rfind(c)\<close> for a single character: the highest index of \<open>c\<close>, or \<open>-1\<close>.\<close>

fun rfind_from :: "string \<Rightarrow> char \<Rightarrow> int \<Rightarrow> int \<Rightarrow> int" where
  "rfind_from [] c i found = found"
| "rfind_from (x # xs) c i found = rfind_from xs c (i + 1) (if x = c then i else found)"

definition rfind :: "string \<Rightarrow> char \<Rightarrow> int" where
  "rfind p c = rfind_from p c 0 (- 1)"

text \<open>
  \<^verbatim>\<open>os.path.splitext\<close> (\<^verbatim>\<open>genericpath._splitext\<close> with separator \<^verbatim>\<open>/\<close> and extension
  separator \<^verbatim>\<open>.\<close>): the extension starts at the last dot of the last path component,
  unless that component has only dots before it.
  \<^verbatim>\<open>
    sepIndex = p.rfind(sep)
    dotIndex = p.rfind(extsep)
    if dotIndex > sepIndex:
        filenameIndex = sepIndex + 1
        while filenameIndex < dotIndex:
            if p[filenameIndex:filenameIndex+1] != extsep:
                return p[:dotIndex], p[dotIndex:]
            filenameIndex += 1
    return p, p[:0]
  \<close>
\<close>

function splitext_scan :: "string \<Rightarrow> int \<Rightarrow> int \<Rightarrow> string \<times> string" where
  "splitext_scan p filenameIndex dotIndex =
     (if filenameIndex < dotIndex then
        (if p ! nat filenameIndex \<noteq> CHR ''.'' then (take (nat dotIndex) p, drop (nat dotIndex) p)
         else splitext_scan p (filenameIndex + 1) dotIndex)
      else (p, []))"
  by pat_completeness auto
termination
  by (relation "measure (\<lambda>(p, i, d). nat (d - i))") auto

declare splitext_scan.simps [simp del]

definition splitext :: "string \<Rightarrow> string \<times> string" where
  "splitext p =
     (let sepIndex = rfind p CHR ''/'';
          dotIndex = rfind p CHR ''.''
      in if dotIndex > sepIndex then splitext_scan p (sepIndex + 1) dotIndex else (p, []))"

section \<open>hashlib.sha1\<close>

text \<open>
  \<^verbatim>\<open>hashlib.sha1(image_path.encode()).hexdigest()\<close>: SHA-1 as in FIPS 180-4, on 32-bit
  words written as naturals with the wrap-around \<open>mod 2 ^ 32\<close> explicit. The digest is
  printed as 40 lower-case hexadecimal digits.
\<close>

definition add32 :: "nat \<Rightarrow> nat \<Rightarrow> nat" where
  "add32 a b = (a + b) mod 4294967296"

definition rotl32 :: "nat \<Rightarrow> nat \<Rightarrow> nat" where
  "rotl32 n w = (w * 2 ^ n) mod 4294967296 + w div 2 ^ (32 - n)"

definition not32 :: "nat \<Rightarrow> nat" where
  "not32 w = 4294967295 - w"

definition be64 :: "nat \<Rightarrow> nat list" where
  "be64 n =
     [n div 72057594037927936 mod 256, n div 281474976710656 mod 256,
      n div 1099511627776 mod 256, n div 4294967296 mod 256,
      n div 16777216 mod 256, n div 65536 mod 256, n div 256 mod 256, n mod 256]"

definition sha1_pad :: "string \<Rightarrow> nat list" where
  "sha1_pad msg =
     map of_char msg @ [128] @ replicate ((119 - length msg mod 64) mod 64) 0 @
     be64 (8 * length msg)"

fun be_words :: "nat list \<Rightarrow> nat list" where
  "be_words (a # b # c # d # rest) = (16777216 * a + 65536 * b + 256 * c + d) # be_words rest"
| "be_words _ = []"

fun blocks :: "nat \<Rightarrow> nat list \<Rightarrow> nat list list" where
  "blocks 0 ws = []"
| "blocks (Suc n) ws = take 16 ws # blocks n (drop 16 ws)"

fun expand :: "nat \<Rightarrow> nat list \<Rightarrow> nat list" where
  "expand 0 ws = ws"
| "expand (Suc n) ws =
     expand n (ws @ [rotl32 1 (ws ! (length ws - 3) XOR ws ! (length ws - 8) XOR
                              ws ! (length ws - 14) XOR ws ! (length ws - 16))])"

type_synonym sha1_state = "nat \<times> nat \<times> nat \<times> nat \<times> nat"

definition sha1_f :: "nat \<Rightarrow> nat \<Rightarrow> nat \<Rightarrow> nat \<Rightarrow> nat" where
  "sha1_f t b c d =
     (if t < 20 then (b AND c) OR (not32 b AND d)
      else if t < 40 then b XOR c XOR d
      else if t < 60 then (b AND c) OR (b AND d) OR (c AND d)
      else b XOR c XOR d)"

definition sha1_k :: "nat \<Rightarrow> nat" where
  "sha1_k t =
     (if t < 20 then 0x5A827999
      else if t < 40 then 0x6ED9EBA1
      else if t < 60 then 0x8F1BBCDC
      else 0xCA62C1D6)"

fun sha1_rounds :: "nat \<Rightarrow> sha1_state \<Rightarrow> nat list \<Rightarrow> sha1_state" where
  "sha1_rounds t s [] = s"
| "sha1_rounds t (a, b, c, d, e) (w # ws) =
     sha1_rounds (t + 1)
       (add32 (add32 (add32 (add32 (rotl32 5 a) (sha1_f t b c d)) e) (sha1_k t)) w,
        a, rotl32 30 b, c, d) ws"

fun add_state :: "sha1_state \<Rightarrow> sha1_state \<Rightarrow> sha1_state" where
  "add_state (h0, h1, h2, h3, h4) (a, b, c, d, e) =
     (add32 h0 a, add32 h1 b, add32 h2 c, add32 h3 d, add32 h4 e)"

definition sha1_block :: "sha1_state \<Rightarrow> nat list \<Rightarrow> sha1_state" where
  "sha1_block h blk = add_state h (sha1_rounds 0 h (expand 64 blk))"

definition sha1_init :: sha1_state where
  "sha1_init = (0x67452301, 0xEFCDAB89, 0x98BADCFE, 0x10325476, 0xC3D2E1F0)"

definition sha1 :: "string \<Rightarrow> sha1_state" where
  "sha1 msg =
     foldl sha1_block sha1_init (blocks ((length msg + 72) div 64) (be_words (sha1_pad msg)))"

definition hex_chars :: string where
  "hex_chars = ''0123456789abcdef''"

definition hex_digit :: "nat \<Rightarrow> char" where
  "hex_digit n = hex_chars ! (n mod 16)"

definition hex32 :: "nat \<Rightarrow> string" where
  "hex32 w =
     [hex_digit (w div 268435456), hex_digit (w div 16777216), hex_digit (w div 1048576),
      hex_digit (w div 65536), hex_digit (w div 4096), hex_digit (w div 256),
      hex_digit (w div 16), hex_digit w]"

fun hex_state :: "sha1_state \<Rightarrow> string" where
  "hex_state (h0, h1, h2, h3, h4) = hex32 h0 @ hex32 h1 @ hex32 h2 @ hex32 h3 @ hex32 h4"

definition sha1_hexdigest :: "string \<Rightarrow> string" where
  "sha1_hexdigest msg = hex_state (sha1 msg)"

section \<open>The file system, PIL and pyexiv2\<close>

text \<open>
  What the pipeline can observe of an image file: whether PIL can convert it (open it,
  load it and encode it in the target format: \<open>decodable\<close>), whether PIL can at least open
  and load it (\<open>loadable\<close>: a conversion that fails then fails in the encoder, after the
  destination has been opened for writing), whether pyexiv2 can read and write its
  metadata, and its IPTC records (key and raw
  values, in the order of \<^verbatim>\<open>meta.iptc_keys\<close>). A directory is its list of entries in the
  order of \<^verbatim>\<open>os.listdir\<close>; a path that maps to \<open>None\<close> cannot be listed (missing, not a
  directory, permission denied). \<^verbatim>\<open>os.path.join(path, filename)\<close> is the entry
  \<open>filename\<close> of the directory \<open>path\<close>.
\<close>

record image =
  decodable :: bool
  loadable :: bool
  exiv_readable :: bool
  exiv_writable :: bool
  iptc :: "(string \<times> string list) list"

datatype node = Directory | File image

type_synonym filesystem = "string \<Rightarrow> (string \<times> node) list option"

definition os_listdir :: "filesystem \<Rightarrow> string \<Rightarrow> exn + string list" where
  "os_listdir fs directory =
     (case fs directory of None \<Rightarrow> Inl OSError | Some entries \<Rightarrow> Inr (map fst entries))"

text \<open>\<^verbatim>\<open>os.path.isdir(os.path.join(directory, name))\<close>\<close>

definition os_path_isdir :: "filesystem \<Rightarrow> string \<Rightarrow> string \<Rightarrow> bool" where
  "os_path_isdir fs directory name =
     (case fs directory of
        None \<Rightarrow> False
      | Some entries \<Rightarrow> map_of entries name = Some Directory)"

definition lookup_file :: "filesystem \<Rightarrow> string \<Rightarrow> string \<Rightarrow> image option" where
  "lookup_file fs directory name =
     (case fs directory of
        None \<Rightarrow> None
      | Some entries \<Rightarrow>
          (case map_of entries name of Some (File img) \<Rightarrow> Some img | _ \<Rightarrow> None))"

definition store_file :: "filesystem \<Rightarrow> string \<Rightarrow> string \<Rightarrow> image \<Rightarrow> filesystem" where
  "store_file fs directory name img =
     (case fs directory of
        None \<Rightarrow> fs
      | Some entries \<Rightarrow> fs(directory \<mapsto> AList.update name (File img) entries))"

text \<open>
  \<^verbatim>\<open>Image.open(url).save(os.path.join(save_path, outfile), quality=100)\<close>: what it raises
  (if anything) and the files after. PIL opens and loads the source, then opens the
  destination for writing (\<^verbatim>\<open>w+b\<close>, which empties a file that is there), then encodes.
  The call raises with the files untouched when the source is missing or cannot be
  loaded, and when the destination directory is missing or the destination name is a
  directory. When the encoder fails, the destination has been opened already: a file that
  was there is left empty, one that was created for the call is removed again. Otherwise
  the destination holds a newly encoded image: a well-formed file without IPTC records.
  PIL takes the encoding from the extension of \<open>outfile\<close>, lowered; every format that
  \<^verbatim>\<open>__init__\<close> stores is one it knows.
\<close>

definition pil_encode :: "image \<Rightarrow> image" where
  "pil_encode src =
     \<lparr>decodable = True, loadable = True, exiv_readable = True, exiv_writable = True, iptc = []\<rparr>"

definition empty_file :: image where
  "empty_file =
     \<lparr>decodable = False, loadable = False, exiv_readable = False, exiv_writable = False, iptc = []\<rparr>"

definition Image_open_save ::
  "filesystem \<Rightarrow> string \<Rightarrow> string \<Rightarrow> string \<Rightarrow> string \<Rightarrow> exn option \<times> filesystem" where
  "Image_open_save fs path orig_filename save_path outfile =
     (case lookup_file fs path orig_filename of
        None \<Rightarrow> (Some OSError, fs)
      | Some img \<Rightarrow>
          if \<not> decodable img \<and> \<not> loadable img then (Some OSError, fs)
          else if fs save_path = None \<or> os_path_isdir fs save_path outfile then (Some OSError, fs)
          else if decodable img then (None, store_file fs save_path outfile (pil_encode img))
          else (Some OSError,
                if lookup_file fs save_path outfile = None then fs
                else store_file fs save_path outfile empty_file))"

text \<open>\<^verbatim>\<open>meta = pyexiv2.ImageMetadata(url); meta.read()\<close>\<close>

definition ImageMetadata_read :: "filesystem \<Rightarrow> string \<Rightarrow> string \<Rightarrow> exn + image" where
  "ImageMetadata_read fs path name =
     (case lookup_file fs path name of
        None \<Rightarrow> Inl OSError
      | Some img \<Rightarrow> if exiv_readable img then Inr img else Inl OSError)"

text \<open>
  \<^verbatim>\<open>pyexiv2.IptcTag(key, values)\<close>: the values of a tag are a list of strings. A value that
  is not a list is refused with \<^verbatim>\<open>TypeError\<close>, a list with an element that is not a
  string with \<^verbatim>\<open>IptcValueError\<close> (a \<^verbatim>\<open>ValueError\<close>). \<^verbatim>\<open>None\<close> stands for no values
  given: the tag is made without setting any, and holds the one empty value that libexiv2
  creates a datum with. The key is always the keyword key here, which pyexiv2 knows.
\<close>

definition is_str :: "pyval \<Rightarrow> bool" where
  "is_str v = (case v of PyStr s \<Rightarrow> True | _ \<Rightarrow> False)"

definition str_value :: "pyval \<Rightarrow> string" where
  "str_value v = (case v of PyStr s \<Rightarrow> s | _ \<Rightarrow> [])"

definition IptcTag :: "string \<Rightarrow> pyval \<Rightarrow> exn + (string \<times> string list)" where
  "IptcTag key values =
     (case values of
        PyNone \<Rightarrow> Inr (key, [[]])
      | PyList vs \<Rightarrow> if list_all is_str vs then Inr (key, map str_value vs) else Inl ValueError
      | _ \<Rightarrow> Inl TypeError)"

text \<open>
  \<^verbatim>\<open>meta[key] = tag\<close>: the record \<open>key\<close> is replaced by the values of the tag (added when
  there was none). A tag with no value erases the record.
\<close>

definition ImageMetadata_setitem :: "image \<Rightarrow> string \<times> string list \<Rightarrow> image" where
  "ImageMetadata_setitem meta tag =
     (case tag of (key, values) \<Rightarrow>
        meta\<lparr>iptc := (if values = [] then AList.delete key (iptc meta)
                        else AList.update key values (iptc meta))\<rparr>)"

text \<open>\<^verbatim>\<open>meta.write()\<close>: the file \<open>name\<close> of \<open>path\<close> gets the metadata held in \<open>meta\<close>.\<close>

definition ImageMetadata_write :: "filesystem \<Rightarrow> string \<Rightarrow> string \<Rightarrow> image \<Rightarrow> exn + filesystem" where
  "ImageMetadata_write fs path name meta =
     (if exiv_writable meta then Inr (store_file fs path name meta) else Inl OSError)"

section \<open>class ProcessImages\<close>

definition ALLOWED_CONVERSION_FORMATS :: "string list" where
  "ALLOWED_CONVERSION_FORMATS = [''jpeg'', ''jpg'', ''tiff'', ''tif'', ''png'']"

text \<open>
  The attributes set by \<^verbatim>\<open>__init__\<close>. \<^verbatim>\<open>image_paths\<close> is a set of paths; the list gives
  the order in which the generator iterates over it.
\<close>

record ProcessImages =
  ORIGINAL_IMAGE_PATHS :: "string list"
  PROCESSED_IMAGE_PATH :: string
  CONVERSION_FORMAT :: string
  retag :: bool

text \<open>
  \<^verbatim>\<open>
    self.CONVERSION_FORMAT = conversion_format \
        if conversion_format.lower() in self.ALLOWED_CONVERSION_FORMATS else 'jpg'
    self.retag = retag if isinstance(retag, bool) else False
  \<close>
  \<^verbatim>\<open>conversion_format.lower()\<close> raises \<^verbatim>\<open>AttributeError\<close> on a value that is not a string
  (the default \<^verbatim>\<open>None\<close> among them).
\<close>

definition ProcessImages_init ::
  "string list \<Rightarrow> string \<Rightarrow> pyval \<Rightarrow> pyval \<Rightarrow> exn + ProcessImages" where
  "ProcessImages_init image_paths processed_image_path conversion_format retag_arg =
     (case conversion_format of
        PyStr s \<Rightarrow>
          Inr \<lparr>ORIGINAL_IMAGE_PATHS = image_paths,
               PROCESSED_IMAGE_PATH = processed_image_path,
               CONVERSION_FORMAT =
                 (if py_lower s \<in> set ALLOWED_CONVERSION_FORMATS then s else ''jpg''),
               retag = (case retag_arg of PyBool b \<Rightarrow> b | _ \<Rightarrow> False)\<rparr>
      | _ \<Rightarrow> Inl AttributeError)"

text \<open>The dictionaries the methods return and the generator yields.\<close>

record tag_record =
  iptc_key :: string
  tags :: "string list"

record conversion =
  orig_path :: string
  processed_path :: string
  filename :: string

text \<open>\<^verbatim>\<open>conversion_data\<close> is \<open>None\<close> where the source stores \<^verbatim>\<open>False\<close>.\<close>

record processed =
  conversion_data :: "conversion option"
  tag_data :: tag_record

text \<open>
  \<^verbatim>\<open>read_iptc_tags(filename, path)\<close>: the list of records, or \<^verbatim>\<open>False\<close> (\<open>None\<close>). The
  raw value of a record is a list here, so \<^verbatim>\<open>tag.raw_value or []\<close> is that list.
\<close>

definition read_iptc_tags :: "filesystem \<Rightarrow> string \<Rightarrow> string \<Rightarrow> exn + tag_record list option" where
  "read_iptc_tags fs file_name path =
     try_except
       (case ImageMetadata_read fs path file_name of
          Inl e \<Rightarrow> Inl e
        | Inr meta \<Rightarrow>
            Inr (Some (if iptc meta \<noteq> []
                       then map (\<lambda>(key, raw_value). \<lparr>iptc_key = key, tags = raw_value\<rparr>) (iptc meta)
                       else [\<lparr>iptc_key = [], tags = []\<rparr>])))
       None"

text \<open>
  \<^verbatim>\<open>write_iptc_tags(path, filename, tag_data)\<close>: the returned boolean and the files after.
  \<open>tagdata\<close> is the argument \<^verbatim>\<open>tag_data\<close>: whatever the caller passes.
  \<^verbatim>\<open>
    try:
        iptc_key = tag_data['iptc_key'] if tag_data['iptc_key'] == 'Iptc.Application2.Keywords' else None
        if iptc_key:
            tags = tag_data['tags']
            url = os.path.join(path, filename)
            meta = pyexiv2.ImageMetadata(os.path.join(url))
            meta.read()
            meta[iptc_key] = pyexiv2.IptcTag(iptc_key, tags)
            meta.write()
            return True
    except (TypeError, Exception) as e: ...
    return False
  \<close>
\<close>

definition write_iptc_tags ::
  "filesystem \<Rightarrow> string \<Rightarrow> string \<Rightarrow> pyval \<Rightarrow> exn + (bool \<times> filesystem)" where
  "write_iptc_tags fs path file_name tagdata =
     try_except
       (case py_getitem tagdata ''iptc_key'' of
          Inl e \<Rightarrow> Inl e
        | Inr key \<Rightarrow>
            if key = PyStr ''Iptc.Application2.Keywords'' then
              (case py_getitem tagdata ''tags'' of
                 Inl e \<Rightarrow> Inl e
               | Inr tags' \<Rightarrow>
                   (case ImageMetadata_read fs path file_name of
                      Inl e \<Rightarrow> Inl e
                    | Inr meta \<Rightarrow>
                        (case IptcTag ''Iptc.Application2.Keywords'' tags' of
                           Inl e \<Rightarrow> Inl e
                         | Inr tag \<Rightarrow>
                             (case ImageMetadata_write fs path file_name
                                     (ImageMetadata_setitem meta tag) of
                                Inl e \<Rightarrow> Inl e
                              | Inr fs' \<Rightarrow> Inr (True, fs')))))
            else Inr (False, fs))
       (False, fs)"

text \<open>
  The dictionary that a record of \<^verbatim>\<open>read_iptc_tags\<close> is:
  \<^verbatim>\<open>{'iptc_key': key, 'tags': [...]}\<close>.
\<close>

definition tag_dict :: "tag_record \<Rightarrow> pyval" where
  "tag_dict tag = PyDict [(''iptc_key'', PyStr (iptc_key tag)), (''tags'', PyList (map PyStr (tags tag)))]"

text \<open>
  \<^verbatim>\<open>convert_format(orig_filename, new_filename, path, save_path, conversion_format)\<close>:
  the conversion record or \<^verbatim>\<open>False\<close> (\<open>None\<close>), and the files after. What the \<^verbatim>\<open>try\<close>
  block raises is caught; the files are then as the failed call has left them.
\<close>

definition convert_format ::
  "filesystem \<Rightarrow> string \<Rightarrow> string \<Rightarrow> string \<Rightarrow> string \<Rightarrow> string \<Rightarrow>
   exn + (conversion option \<times> filesystem)" where
  "convert_format fs orig_filename new_filename path save_path conversion_format =
     (let outfile = fst (splitext new_filename) @ ''.'' @ conversion_format
      in case Image_open_save fs path orig_filename save_path outfile of
           (Some e, fs') \<Rightarrow> Inr (None, fs')
         | (None, fs') \<Rightarrow>
             Inr (Some \<lparr>orig_path = path, processed_path = save_path, filename = outfile\<rparr>, fs'))"

text \<open>\<^verbatim>\<open>get_filenames(directory)\<close>: the names of the entries that are not directories, or \<^verbatim>\<open>False\<close> (\<open>None\<close>).\<close>

definition get_filenames :: "filesystem \<Rightarrow> string \<Rightarrow> exn + string list option" where
  "get_filenames fs directory =
     try_except
       (case os_listdir fs directory of
          Inl e \<Rightarrow> Inl e
        | Inr names \<Rightarrow> Inr (Some (filter (\<lambda>name. \<not> os_path_isdir fs directory name) names)))
       None"

section \<open>The generator generate\_processed\_copies\<close>

text \<open>
  The state of a run: the files, the one dictionary \<^verbatim>\<open>processed_data\<close> that every
  iteration updates, and what the consumer has received: each \<^verbatim>\<open>yield\<close> appends the
  contents of \<^verbatim>\<open>processed_data\<close> at that moment (the generator yields the same dictionary
  every time, so this is what a consumer reads who looks at each result as it arrives).
  \<open>calls\<close> is a log of the calls the
  generator makes to \<^verbatim>\<open>convert_format\<close>, \<^verbatim>\<open>read_iptc_tags\<close> and \<^verbatim>\<open>write_iptc_tags\<close>; the
  code keeps no such log, it is there to state which operations a run invokes.
\<close>

datatype call =
  ConvertCall string string string
| ReadCall string string
| WriteCall string string tag_record

record gen_state =
  disk :: filesystem
  processed_data :: processed
  yielded :: "processed list"
  calls :: "call list"

definition then_do ::
  "exn option \<times> gen_state \<Rightarrow> (gen_state \<Rightarrow> exn option \<times> gen_state) \<Rightarrow> exn option \<times> gen_state" where
  "then_do r f = (case r of (Some e, st) \<Rightarrow> (Some e, st) | (None, st) \<Rightarrow> f st)"

definition PROVENANCE :: string where
  "PROVENANCE = ''SPM: TAGS COPIED FROM ORIGINAL''"

text \<open>
  \<^verbatim>\<open>
    for tag in tag_data:
        if tag['tags']:
            tag['tags'].append('SPM: TAGS COPIED FROM ORIGINAL')
            processed_data['tag_data'] = tag
            self.write_iptc_tags(path=self.PROCESSED_IMAGE_PATH, filename=new_filename, tag_data=tag)
        else:
            processed_data['tag_data'] = tag
  \<close>
\<close>

fun tag_loop :: "ProcessImages \<Rightarrow> string \<Rightarrow> tag_record list \<Rightarrow> gen_state \<Rightarrow> exn option \<times> gen_state" where
  "tag_loop self new_filename [] st = (None, st)"
| "tag_loop self new_filename (tag # rest) st =
     (if tags tag \<noteq> [] then
        (let tag' = tag\<lparr>tags := tags tag @ [PROVENANCE]\<rparr>;
             st1 = st\<lparr>processed_data := (processed_data st)\<lparr>tag_data := tag'\<rparr>,
                      calls := calls st @ [WriteCall (PROCESSED_IMAGE_PATH self) new_filename tag']\<rparr>
         in case write_iptc_tags (disk st1) (PROCESSED_IMAGE_PATH self) new_filename (tag_dict tag') of
              Inl e \<Rightarrow> (Some e, st1)
            | Inr (written, fs') \<Rightarrow> tag_loop self new_filename rest (st1\<lparr>disk := fs'\<rparr>))
      else tag_loop self new_filename rest
             (st\<lparr>processed_data := (processed_data st)\<lparr>tag_data := tag\<rparr>\<rparr>))"

text \<open>
  \<^verbatim>\<open>
    if not converted_did_exist:
        converted = self.convert_format(orig_filename=filename, new_filename=new_filename,
            path=image_path, save_path=self.PROCESSED_IMAGE_PATH,
            conversion_format=self.CONVERSION_FORMAT)
        processed_data['conversion_data'] = converted
    else:
        processed_data['conversion_data'] = {'orig_path': image_path,
            'processed_path': self.PROCESSED_IMAGE_PATH, 'filename': new_filename}
  \<close>
\<close>

definition convert_or_skip ::
  "ProcessImages \<Rightarrow> string \<Rightarrow> string \<Rightarrow> string \<Rightarrow> bool \<Rightarrow> gen_state \<Rightarrow> exn option \<times> gen_state" where
  "convert_or_skip self image_path file_name new_filename converted_did_exist st =
     (if \<not> converted_did_exist then
        (let st1 = st\<lparr>calls := calls st @ [ConvertCall image_path file_name new_filename]\<rparr>
         in case convert_format (disk st1) file_name new_filename image_path
                   (PROCESSED_IMAGE_PATH self) (CONVERSION_FORMAT self) of
              Inl e \<Rightarrow> (Some e, st1)
            | Inr (converted, fs') \<Rightarrow>
                (None, st1\<lparr>disk := fs',
                           processed_data := (processed_data st1)\<lparr>conversion_data := converted\<rparr>\<rparr>))
      else (None, st\<lparr>processed_data := (processed_data st)
              \<lparr>conversion_data := Some \<lparr>orig_path = image_path,
                                        processed_path = PROCESSED_IMAGE_PATH self,
                                        filename = new_filename\<rparr>\<rparr>\<rparr>))"

text \<open>
  \<^verbatim>\<open>
    if self.retag or not converted_did_exist:
        tag_data = self.read_iptc_tags(filename=filename, path=image_path)
        if tag_data:
            for tag in tag_data: ...
  \<close>
  A record list that \<^verbatim>\<open>read_iptc_tags\<close> returns is never empty, so \<^verbatim>\<open>if tag_data\<close> is
  false exactly for \<^verbatim>\<open>False\<close>; the case of the empty list, false as well, is spelled out all
  the same.
\<close>

definition tag_or_skip ::
  "ProcessImages \<Rightarrow> string \<Rightarrow> string \<Rightarrow> string \<Rightarrow> bool \<Rightarrow> gen_state \<Rightarrow> exn option \<times> gen_state" where
  "tag_or_skip self image_path file_name new_filename converted_did_exist st =
     (if retag self \<or> \<not> converted_did_exist then
        (let st1 = st\<lparr>calls := calls st @ [ReadCall file_name image_path]\<rparr>
         in case read_iptc_tags (disk st1) file_name image_path of
              Inl e \<Rightarrow> (Some e, st1)
            | Inr None \<Rightarrow> (None, st1)
            | Inr (Some []) \<Rightarrow> (None, st1)
            | Inr (Some tag_list) \<Rightarrow> tag_loop self new_filename tag_list st1)
      else (None, st))"

text \<open>
  The body of the inner loop for one name of the listing (lines 148 to 196). The test
  \<^verbatim>\<open>new_filename in existing_converted\<close> raises \<^verbatim>\<open>TypeError\<close> when \<^verbatim>\<open>get_filenames\<close> has
  returned \<^verbatim>\<open>False\<close>.
\<close>

definition new_filename_of :: "string \<Rightarrow> string \<Rightarrow> string \<Rightarrow> string" where
  "new_filename_of path_hash file_name conversion_format =
     path_hash @ ''_'' @ fst (splitext file_name) @ ''.'' @ conversion_format"

definition file_body ::
  "ProcessImages \<Rightarrow> string list option \<Rightarrow> string \<Rightarrow> string \<Rightarrow> string \<Rightarrow> gen_state \<Rightarrow>
   exn option \<times> gen_state" where
  "file_body self existing_converted image_path path_hash file_name st =
     (if os_path_isdir (disk st) image_path file_name then (None, st)
      else
        (let new_filename = new_filename_of path_hash file_name (CONVERSION_FORMAT self)
         in case existing_converted of
              None \<Rightarrow> (Some TypeError, st)
            | Some existing \<Rightarrow>
                (let converted_did_exist = (new_filename \<in> set existing)
                 in then_do (convert_or_skip self image_path file_name new_filename converted_did_exist st)
                      (\<lambda>st1. then_do (tag_or_skip self image_path file_name new_filename converted_did_exist st1)
                         (\<lambda>st2. (None, st2\<lparr>yielded := yielded st2 @ [processed_data st2]\<rparr>))))))"

text \<open>\<^verbatim>\<open>for filename in os.listdir(image_path): ...\<close>, over the listing already taken.\<close>

fun files_loop ::
  "ProcessImages \<Rightarrow> string list option \<Rightarrow> string \<Rightarrow> string \<Rightarrow> string list \<Rightarrow> gen_state \<Rightarrow>
   exn option \<times> gen_state" where
  "files_loop self existing_converted image_path path_hash [] st = (None, st)"
| "files_loop self existing_converted image_path path_hash (file_name # rest) st =
     then_do (file_body self existing_converted image_path path_hash file_name st)
       (files_loop self existing_converted image_path path_hash rest)"

text \<open>
  \<^verbatim>\<open>
    for image_path in self.ORIGINAL_IMAGE_PATHS:
        path_hash = hashlib.sha1(image_path.encode()).hexdigest()
        for filename in os.listdir(image_path): ...
  \<close>
  \<^verbatim>\<open>os.listdir\<close> is called here directly, not through \<^verbatim>\<open>get_filenames\<close>: what it raises
  leaves both loops. The digest depends on the path alone and is written where it is used.
\<close>

fun dirs_loop ::
  "ProcessImages \<Rightarrow> string list option \<Rightarrow> string list \<Rightarrow> gen_state \<Rightarrow> exn option \<times> gen_state" where
  "dirs_loop self existing_converted [] st = (None, st)"
| "dirs_loop self existing_converted (image_path # rest) st =
     (case os_listdir (disk st) image_path of
        Inl e \<Rightarrow> (Some e, st)
      | Inr names \<Rightarrow>
          then_do (files_loop self existing_converted image_path (sha1_hexdigest image_path) names st)
            (dirs_loop self existing_converted rest))"

text \<open>
  The generator, run to its end. The outer \<^verbatim>\<open>try ... except (TypeError, Exception)\<close>
  prints what was raised and the generator finishes: the result is the exception caught
  (if any) with the state reached.
\<close>

definition initial_state :: "filesystem \<Rightarrow> gen_state" where
  "initial_state fs =
     \<lparr>disk = fs,
      processed_data =
        \<lparr>conversion_data = Some \<lparr>orig_path = [], processed_path = [], filename = []\<rparr>,
         tag_data = \<lparr>iptc_key = [], tags = []\<rparr>\<rparr>,
      yielded = [],
      calls = []\<rparr>"

definition generate_processed_copies ::
  "ProcessImages \<Rightarrow> filesystem \<Rightarrow> exn + (exn option \<times> gen_state)" where
  "generate_processed_copies self fs =
     (case get_filenames fs (PROCESSED_IMAGE_PATH self) of
        Inl e \<Rightarrow> Inr (Some e, initial_state fs)
      | Inr existing_converted \<Rightarrow>
          Inr (dirs_loop self existing_converted (ORIGINAL_IMAGE_PATHS self) (initial_state fs)))"

text \<open>Which kind of call a log entry is.\<close>

definition is_write :: "call \<Rightarrow> bool" where
  "is_write c = (case c of WriteCall p f t \<Rightarrow> True | _ \<Rightarrow> False)"

definition is_convert :: "call \<Rightarrow> bool" where
  "is_convert c = (case c of ConvertCall p f n \<Rightarrow> True | _ \<Rightarrow> False)"

definition is_read :: "call \<Rightarrow> bool" where
  "is_read c = (case c of ReadCall f p \<Rightarrow> True | _ \<Rightarrow> False)"

text \<open>A format string without dot and slash, as every format that \<^verbatim>\<open>__init__\<close> stores is.\<close>

definition plain_format :: "string \<Rightarrow> bool" where
  "plain_format fmt = (CHR ''.'' \<notin> set fmt \<and> CHR ''/'' \<notin> set fmt)"

section \<open>Notions for stating what a run does\<close>

text \<open>
  \<open>extends out fs fs'\<close>: the files \<open>fs'\<close> differ from \<open>fs\<close> only inside the directory
  \<open>out\<close>, which is still there (or still missing); no file of \<open>out\<close> has disappeared and
  its subdirectories are the same.
  \<open>plain_names fs d\<close> are the source files of \<open>d\<close> as \<^verbatim>\<open>get_filenames\<close> lists them (none when
  it fails). \<open>pass_through\<close> is the record yielded for a file that was found converted.
\<close>

definition extends :: "string \<Rightarrow> filesystem \<Rightarrow> filesystem \<Rightarrow> bool" where
  "extends out fs fs' =
     ((\<forall>p. p \<noteq> out \<longrightarrow> fs' p = fs p) \<and>
      ((fs' out = None) = (fs out = None)) \<and>
      (\<forall>n. lookup_file fs out n \<noteq> None \<longrightarrow> lookup_file fs' out n \<noteq> None) \<and>
      (\<forall>n. os_path_isdir fs' out n = os_path_isdir fs out n))"

definition plain_names :: "filesystem \<Rightarrow> string \<Rightarrow> string list" where
  "plain_names fs directory =
     (case get_filenames fs directory of Inr (Some names) \<Rightarrow> names | _ \<Rightarrow> [])"

definition pass_through :: "ProcessImages \<Rightarrow> tag_record \<Rightarrow> string \<Rightarrow> string \<Rightarrow> processed" where
  "pass_through self t image_path file_name =
     \<lparr>conversion_data =
        Some \<lparr>orig_path = image_path, processed_path = PROCESSED_IMAGE_PATH self,
              filename = new_filename_of (sha1_hexdigest image_path) file_name (CONVERSION_FORMAT self)\<rparr>,
      tag_data = t\<rparr>"

section \<open>Example files\<close>

definition KEYWORDS :: string where
  "KEYWORDS = ''Iptc.Application2.Keywords''"

definition moon_tags :: "string list" where
  "moon_tags = [''DATE: 1974'', ''PLACE: The Moon'']"

definition tagged_image :: image where
  "tagged_image =
     \<lparr>decodable = True, loadable = True, exiv_readable = True, exiv_writable = True,
      iptc = [(KEYWORDS, moon_tags)]\<rparr>"

definition bare_image :: image where
  "bare_image =
     \<lparr>decodable = True, loadable = True, exiv_readable = True, exiv_writable = True, iptc = []\<rparr>"

definition corrupt_image :: image where
  "corrupt_image =
     \<lparr>decodable = False, loadable = False, exiv_readable = False, exiv_writable = False, iptc = []\<rparr>"

text \<open>An image that PIL can load but not encode in the target format.\<close>

definition unencodable_image :: image where
  "unencodable_image =
     \<lparr>decodable = False, loadable = True, exiv_readable = True, exiv_writable = True, iptc = []\<rparr>"

definition out_fs :: filesystem where
  "out_fs = [''/processed'' \<mapsto> [(''x.jpg'', File bare_image)]]"

text \<open>
  An output directory with an image without metadata, a tagged one, and one whose metadata
  pyexiv2 can read but not write.
\<close>

definition tag_fs :: filesystem where
  "tag_fs =
     [''/processed'' \<mapsto>
        [(''x.jpg'', File bare_image), (''t.jpg'', File tagged_image),
         (''locked.jpg'', File (bare_image\<lparr>exiv_writable := False\<rparr>))]]"

text \<open>
  One source directory with three files, the second of them corrupt (PIL cannot open it
  and pyexiv2 cannot read it) and the third without metadata; an empty output directory.
\<close>

definition photos_fs :: filesystem where
  "photos_fs =
     [''/photos'' \<mapsto> [(''a.tif'', File tagged_image), (''b.tif'', File corrupt_image),
                        (''c.tif'', File bare_image)],
      ''/processed'' \<mapsto> []]"

definition example_self :: ProcessImages where
  "example_self =
     \<lparr>ORIGINAL_IMAGE_PATHS = [''/photos''], PROCESSED_IMAGE_PATH = ''/processed'',
      CONVERSION_FORMAT = ''jpg'', retag = False\<rparr>"

text \<open>
  The states that runs over these files reach. \<open>converted_name stem\<close> is the converted name of
  \<^verbatim>\<open>stem.tif\<close> in \<^verbatim>\<open>/photos\<close>: the SHA-1 digest of the string \<^verbatim>\<open>/photos\<close>, an underscore, the
  stem and \<^verbatim>\<open>.jpg\<close>. \<open>photos_fs_after\<close> are the files after a first run over \<open>photos_fs\<close>;
  \<open>good_fs\<close> is \<open>photos_fs\<close> without the corrupt file.
\<close>

definition converted_name :: "string \<Rightarrow> string" where
  "converted_name stem = ''26525bcdfc8ab4b77c0a5cfdccb3ee89dcea8178_'' @ stem @ ''.jpg''"

definition conv :: "string \<Rightarrow> conversion option" where
  "conv stem =
     Some \<lparr>orig_path = ''/photos'', processed_path = ''/processed'', filename = converted_name stem\<rparr>"

definition no_tags :: tag_record where
  "no_tags = \<lparr>iptc_key = [], tags = []\<rparr>"

definition moon_record :: tag_record where
  "moon_record = \<lparr>iptc_key = KEYWORDS, tags = moon_tags @ [PROVENANCE]\<rparr>"

definition photos_fs_after :: filesystem where
  "photos_fs_after =
     [''/photos'' \<mapsto> [(''a.tif'', File tagged_image), (''b.tif'', File corrupt_image),
                        (''c.tif'', File bare_image)],
      ''/processed'' \<mapsto>
        [(converted_name ''a'', File (bare_image\<lparr>iptc := [(KEYWORDS, moon_tags @ [PROVENANCE])]\<rparr>)),
         (converted_name ''c'', File bare_image)]]"

definition first_run_state :: gen_state where
  "first_run_state =
     \<lparr>disk = photos_fs_after,
      processed_data = \<lparr>conversion_data = conv ''c'', tag_data = no_tags\<rparr>,
      yielded =
        [\<lparr>conversion_data = conv ''a'', tag_data = moon_record\<rparr>,
         \<lparr>conversion_data = None, tag_data = moon_record\<rparr>,
         \<lparr>conversion_data = conv ''c'', tag_data = no_tags\<rparr>],
      calls =
        [ConvertCall ''/photos'' ''a.tif'' (converted_name ''a''),
         ReadCall ''a.tif'' ''/photos'',
         WriteCall ''/processed'' (converted_name ''a'') moon_record,
         ConvertCall ''/photos'' ''b.tif'' (converted_name ''b''),
         ReadCall ''b.tif'' ''/photos'',
         ConvertCall ''/photos'' ''c.tif'' (converted_name ''c''),
         ReadCall ''c.tif'' ''/photos'']\<rparr>"

definition second_run_state :: gen_state where
  "second_run_state =
     \<lparr>disk = photos_fs_after,
      processed_data = \<lparr>conversion_data = conv ''c'', tag_data = no_tags\<rparr>,
      yielded =
        [\<lparr>conversion_data = conv ''a'', tag_data = no_tags\<rparr>,
         \<lparr>conversion_data = None, tag_data = no_tags\<rparr>,
         \<lparr>conversion_data = conv ''c'', tag_data = no_tags\<rparr>],
      calls =
        [ConvertCall ''/photos'' ''b.tif'' (converted_name ''b''),
         ReadCall ''b.tif'' ''/photos'']\<rparr>"

definition retag_run_state :: gen_state where
  "retag_run_state =
     \<lparr>disk = photos_fs_after,
      processed_data = \<lparr>conversion_data = conv ''c'', tag_data = no_tags\<rparr>,
      yielded =
        [\<lparr>conversion_data = conv ''a'', tag_data = moon_record\<rparr>,
         \<lparr>conversion_data = None, tag_data = moon_record\<rparr>,
         \<lparr>conversion_data = conv ''c'', tag_data = no_tags\<rparr>],
      calls =
        [ReadCall ''a.tif'' ''/photos'',
         WriteCall ''/processed'' (converted_name ''a'') moon_record,
         ConvertCall ''/photos'' ''b.tif'' (converted_name ''b''),
         ReadCall ''b.tif'' ''/photos'',
         ReadCall ''c.tif'' ''/photos'']\<rparr>"

definition good_fs :: filesystem where
  "good_fs =
     [''/photos'' \<mapsto> [(''a.tif'', File tagged_image), (''c.tif'', File bare_image)],
      ''/processed'' \<mapsto> []]"

definition good_run_state :: gen_state where
  "good_run_state =
     \<lparr>disk =
        [''/photos'' \<mapsto> [(''a.tif'', File tagged_image), (''c.tif'', File bare_image)],
         ''/processed'' \<mapsto>
           [(converted_name ''a'', File (bare_image\<lparr>iptc := [(KEYWORDS, moon_tags @ [PROVENANCE])]\<rparr>)),
            (converted_name ''c'', File bare_image)]],
      processed_data = \<lparr>conversion_data = conv ''c'', tag_data = no_tags\<rparr>,
      yielded =
        [\<lparr>conversion_data = conv ''a'', tag_data = moon_record\<rparr>,
         \<lparr>conversion_data = conv ''c'', tag_data = no_tags\<rparr>],
      calls =
        [ConvertCall ''/photos'' ''a.tif'' (converted_name ''a''),
         ReadCall ''a.tif'' ''/photos'',
         WriteCall ''/processed'' (converted_name ''a'') moon_record,
         ConvertCall ''/photos'' ''c.tif'' (converted_name ''c''),
         ReadCall ''c.tif'' ''/photos'']\<rparr>"

text \<open>
  A pipeline whose output directory is its one source directory, run over \<open>out_fs\<close>, and
  the states its first and its second run reach. \<open>shared_name\<close> is the converted name of
  \<^verbatim>\<open>x.jpg\<close> in \<^verbatim>\<open>/processed\<close>, \<open>shared_name2\<close> the converted name of that file in turn.
\<close>

definition shared_self :: ProcessImages where
  "shared_self =
     \<lparr>ORIGINAL_IMAGE_PATHS = [''/processed''], PROCESSED_IMAGE_PATH = ''/processed'',
      CONVERSION_FORMAT = ''jpg'', retag = False\<rparr>"

definition shared_name :: string where
  "shared_name = ''ef4991bf39ebda58a8c9e496544574001917207a_x.jpg''"

definition shared_name2 :: string where
  "shared_name2 =
     ''ef4991bf39ebda58a8c9e496544574001917207a_ef4991bf39ebda58a8c9e496544574001917207a_x.jpg''"

definition shared_conv :: "string \<Rightarrow> conversion option" where
  "shared_conv name =
     Some \<lparr>orig_path = ''/processed'', processed_path = ''/processed'', filename = name\<rparr>"

definition shared_first_state :: gen_state where
  "shared_first_state =
     \<lparr>disk = [''/processed'' \<mapsto> [(''x.jpg'', File bare_image), (shared_name, File bare_image)]],
      processed_data = \<lparr>conversion_data = shared_conv shared_name, tag_data = no_tags\<rparr>,
      yielded = [\<lparr>conversion_data = shared_conv shared_name, tag_data = no_tags\<rparr>],
      calls = [ConvertCall ''/processed'' ''x.jpg'' shared_name, ReadCall ''x.jpg'' ''/processed'']\<rparr>"

definition shared_second_state :: gen_state where
  "shared_second_state =
     \<lparr>disk = [''/processed'' \<mapsto> [(''x.jpg'', File bare_image), (shared_name, File bare_image),
                                   (shared_name2, File bare_image)]],
      processed_data = \<lparr>conversion_data = shared_conv shared_name2, tag_data = no_tags\<rparr>,
      yielded = [\<lparr>conversion_data = shared_conv shared_name, tag_data = no_tags\<rparr>,
                 \<lparr>conversion_data = shared_conv shared_name2, tag_data = no_tags\<rparr>],
      calls = [ConvertCall ''/processed'' shared_name shared_name2,
               ReadCall shared_name ''/processed'']\<rparr>"

text \<open>Two source directories that each hold a file \<^verbatim>\<open>photo.tif\<close>.\<close>

definition two_dirs_fs :: filesystem where
  "two_dirs_fs =
     [''/photos/a'' \<mapsto> [(''photo.tif'', File tagged_image)],
      ''/photos/b'' \<mapsto> [(''photo.tif'', File bare_image)],
      ''/processed'' \<mapsto> []]"

lemmas example_defs = KEYWORDS_def moon_tags_def tagged_image_def bare_image_def corrupt_image_def

section \<open>Basic facts about the model\<close>

lemma is_call_simps [simp]:
  "is_write (WriteCall p f t)" "\<not> is_write (ReadCall f p)" "\<not> is_write (ConvertCall p f n)"
  "is_convert (ConvertCall p f n)" "\<not> is_convert (ReadCall f p)" "\<not> is_convert (WriteCall p f t)"
  "is_read (ReadCall f p)" "\<not> is_read (ConvertCall p f n)" "\<not> is_read (WriteCall p f t)"
  by (simp_all add: is_write_def is_convert_def is_read_def)

lemma lookup_store_file:
  "lookup_file (store_file fs d n img) d' n' =
     (if d' = d \<and> n' = n \<and> fs d \<noteq> None then Some img else lookup_file fs d' n')"
  by (auto simp: lookup_file_def store_file_def update_conv' split: option.splits node.splits)

lemma convert_format_eq:
  "convert_format fs orig_filename new_filename path save_path conversion_format =
     Inr (case Image_open_save fs path orig_filename save_path
                 (fst (splitext new_filename) @ ''.'' @ conversion_format) of
            (Some e, fs') \<Rightarrow> (None, fs')
          | (None, fs') \<Rightarrow> (Some \<lparr>orig_path = path, processed_path = save_path,
                               filename = fst (splitext new_filename) @ ''.'' @ conversion_format\<rparr>, fs'))"
  by (simp add: convert_format_def Let_def split: prod.splits option.splits)

lemma read_iptc_tags_eq:
  "read_iptc_tags fs file_name path =
     Inr (case ImageMetadata_read fs path file_name of
            Inl e \<Rightarrow> None
          | Inr meta \<Rightarrow>
              Some (if iptc meta \<noteq> []
                    then map (\<lambda>(key, raw_value). \<lparr>iptc_key = key, tags = raw_value\<rparr>) (iptc meta)
                    else [\<lparr>iptc_key = [], tags = []\<rparr>]))"
  by (simp add: read_iptc_tags_def try_except_def split: sum.splits)

lemma str_values [simp]:
  "list_all is_str (map PyStr ts)" "map str_value (map PyStr ts) = ts"
  "map (str_value \<circ> PyStr) ts = ts"
  by (induction ts) (simp_all add: is_str_def str_value_def)

lemma setitem_fields [simp]:
  "decodable (ImageMetadata_setitem meta tag) = decodable meta"
  "loadable (ImageMetadata_setitem meta tag) = loadable meta"
  "exiv_readable (ImageMetadata_setitem meta tag) = exiv_readable meta"
  "exiv_writable (ImageMetadata_setitem meta tag) = exiv_writable meta"
  by (simp_all add: ImageMetadata_setitem_def split: prod.splits)

lemma setitem_values:
  "values \<noteq> [] \<Longrightarrow>
   ImageMetadata_setitem meta (key, values) = meta\<lparr>iptc := AList.update key values (iptc meta)\<rparr>"
  by (simp add: ImageMetadata_setitem_def)

lemma write_iptc_tags_eq:
  "write_iptc_tags fs path file_name (tag_dict tag) =
     Inr (if iptc_key tag = ''Iptc.Application2.Keywords'' then
            (case lookup_file fs path file_name of
               None \<Rightarrow> (False, fs)
             | Some img \<Rightarrow>
                 if exiv_readable img \<and> exiv_writable img
                 then (True, store_file fs path file_name
                         (ImageMetadata_setitem img (''Iptc.Application2.Keywords'', tags tag)))
                 else (False, fs))
          else (False, fs))"
  by (simp add: write_iptc_tags_def tag_dict_def py_getitem_def IptcTag_def try_except_def
        ImageMetadata_read_def ImageMetadata_write_def split: option.splits)

lemma try_except_total: "\<exists>v. try_except body fallback = Inr v"
  by (cases body) (simp_all add: try_except_def)

lemma write_iptc_tags_total:
  "\<exists>written fs'. write_iptc_tags fs path file_name tagdata = Inr (written, fs')"
  unfolding write_iptc_tags_def using try_except_total by (metis surj_pair)

lemma get_filenames_eq:
  "get_filenames fs directory =
     Inr (case fs directory of
            None \<Rightarrow> None
          | Some entries \<Rightarrow> Some (filter (\<lambda>name. \<not> os_path_isdir fs directory name) (map fst entries)))"
  by (simp add: get_filenames_def try_except_def os_listdir_def split: option.splits)

lemma then_do_simps [simp]:
  "then_do (None, st) f = f st"
  "then_do (Some e, st) f = (Some e, st)"
  by (simp_all add: then_do_def)

lemma file_body_skip:
  assumes "\<not> retag self"
    and "new_filename_of path_hash file_name (CONVERSION_FORMAT self) \<in> set existing"
    and "\<not> os_path_isdir (disk st) image_path file_name"
  shows "file_body self (Some existing) image_path path_hash file_name st =
     (None, st\<lparr>processed_data := (processed_data st)
                  \<lparr>conversion_data := Some \<lparr>orig_path = image_path,
                      processed_path = PROCESSED_IMAGE_PATH self,
                      filename = new_filename_of path_hash file_name (CONVERSION_FORMAT self)\<rparr>\<rparr>,
                yielded := yielded st @ [(processed_data st)
                  \<lparr>conversion_data := Some \<lparr>orig_path = image_path,
                      processed_path = PROCESSED_IMAGE_PATH self,
                      filename = new_filename_of path_hash file_name (CONVERSION_FORMAT self)\<rparr>\<rparr>]\<rparr>)"
  using assms by (simp add: file_body_def convert_or_skip_def tag_or_skip_def Let_def)

lemma rfind_from_absent: "c \<notin> set p \<Longrightarrow> rfind_from p c i found = found"
  by (induction p arbitrary: i found) auto

lemma rfind_from_last:
  "c \<notin> set ys \<Longrightarrow> rfind_from (xs @ c # ys) c i found = i + int (length xs)"
  by (induction xs arbitrary: i found) (auto simp: rfind_from_absent)

lemma splitext_stem_ext:
  assumes "stem \<noteq> []" "hd stem \<noteq> CHR ''.''" "CHR ''/'' \<notin> set stem"
    and "CHR ''.'' \<notin> set ext" "CHR ''/'' \<notin> set ext"
  shows "splitext (stem @ CHR ''.'' # ext) = (stem, CHR ''.'' # ext)"
proof -
  have sep: "rfind (stem @ CHR ''.'' # ext) CHR ''/'' = - 1"
    using assms by (simp add: rfind_def rfind_from_absent)
  have dot: "rfind (stem @ CHR ''.'' # ext) CHR ''.'' = int (length stem)"
    using assms rfind_from_last [of "CHR ''.''" ext stem 0 "- 1"] by (simp add: rfind_def)
  have pos: "0 < length stem" using assms by simp
  have first: "(stem @ CHR ''.'' # ext) ! 0 \<noteq> CHR ''.''"
    using assms by (cases stem) auto
  have "splitext_scan (stem @ CHR ''.'' # ext) 0 (int (length stem)) = (stem, CHR ''.'' # ext)"
    using pos first by (subst splitext_scan.simps) simp
  then show ?thesis
    by (simp add: splitext_def sep dot)
qed

lemma rfind_from_found: "rfind_from ys c j found = found \<or> j \<le> rfind_from ys c j found"
proof (induction ys arbitrary: j found)
  case Nil
  show ?case by simp
next
  case (Cons y ys)
  from Cons [of "j + 1" "if y = c then j else found"] show ?case
    by (auto split: if_splits)
qed

lemma rfind_from_occurs: "i + int (length xs) \<le> rfind_from (xs @ c # ys) c i found"
proof (induction xs arbitrary: i found)
  case Nil
  from rfind_from_found [of ys c "i + 1" i] show ?case by auto
next
  case (Cons x xs)
  from Cons [of "i + 1" "if x = c then i else found"] show ?case by simp
qed

lemma splitext_scan_fst_cases:
  "fst (splitext_scan p i d) = p \<or> fst (splitext_scan p i d) = take (nat d) p"
  by (induction p i d rule: splitext_scan.induct) (subst (1 2) splitext_scan.simps, auto)

lemma splitext_fst_length: "length q \<le> length (fst (splitext (q @ CHR ''.'' # ext)))"
proof -
  let ?p = "q @ CHR ''.'' # ext"
  from rfind_from_occurs [of 0 q "CHR ''.''" ext "- 1"]
  have dot: "int (length q) \<le> rfind ?p CHR ''.''" by (simp add: rfind_def)
  have "fst (splitext ?p) = ?p \<or> fst (splitext ?p) = take (nat (rfind ?p CHR ''.'')) ?p"
    using splitext_scan_fst_cases [of ?p "rfind ?p CHR ''/'' + 1" "rfind ?p CHR ''.''"]
    by (simp add: splitext_def Let_def)
  with dot show ?thesis by (auto simp: min_def)
qed

text \<open>The name that \<^verbatim>\<open>convert_format\<close> saves to is never the name of the source file.\<close>

lemma outfile_not_source:
  "fst (splitext (new_filename_of path_hash file_name fmt)) @ ''.'' @ fmt \<noteq> file_name"
proof
  let ?base = "fst (splitext file_name)"
  let ?stem = "fst (splitext (new_filename_of path_hash file_name fmt))"
  assume eq: "?stem @ ''.'' @ fmt = file_name"
  from splitext_fst_length [of "path_hash @ ''_'' @ ?base" fmt]
  have "length (path_hash @ ''_'' @ ?base) \<le> length ?stem"
    by (simp add: new_filename_of_def)
  moreover from splitext_fst_length [of ?stem fmt] eq have "length ?stem \<le> length ?base"
    by simp
  ultimately show False by simp
qed

lemma splitext_scan_fst: "set (fst (splitext_scan p i d)) \<subseteq> set p"
  by (induction p i d rule: splitext_scan.induct)
     (subst splitext_scan.simps, auto dest: in_set_takeD)

lemma splitext_fst_subset: "set (fst (splitext p)) \<subseteq> set p"
  using splitext_scan_fst by (simp add: splitext_def Let_def)

lemma hex_digit_in: "hex_digit n \<in> set hex_chars"
proof -
  have "n mod 16 < length hex_chars" by (simp add: hex_chars_def)
  then show ?thesis unfolding hex_digit_def by (rule nth_mem)
qed

lemma hex32_shape: "length (hex32 w) = 8 \<and> set (hex32 w) \<subseteq> set hex_chars"
  by (simp add: hex32_def hex_digit_in)

lemma sha1_hexdigest_shape:
  "length (sha1_hexdigest msg) = 40 \<and> set (sha1_hexdigest msg) \<subseteq> set hex_chars"
proof -
  obtain a b c d e where s: "sha1 msg = (a, b, c, d, e)"
    by (metis prod_cases5)
  show ?thesis
    using hex32_shape [of a] hex32_shape [of b] hex32_shape [of c] hex32_shape [of d] hex32_shape [of e]
    by (simp add: sha1_hexdigest_def s)
qed

lemma lower_char_dot_slash:
  "lower_char CHR ''.'' = CHR ''.''" "lower_char CHR ''/'' = CHR ''/''"
  by (simp_all add: lower_char_def)

lemma lower_char_keeps: "c \<in> set ''./'' \<Longrightarrow> lower_char c = c"
  using lower_char_dot_slash by auto

lemma allowed_plain: "py_lower s \<in> set ALLOWED_CONVERSION_FORMATS \<Longrightarrow> plain_format s"
proof -
  assume a: "py_lower s \<in> set ALLOWED_CONVERSION_FORMATS"
  have "c \<notin> set s" if c: "c \<in> set ''./''" for c
  proof
    assume "c \<in> set s"
    then have "lower_char c \<in> set (py_lower s)" by (simp add: py_lower_def)
    with c have "c \<in> set (py_lower s)" by (simp only: lower_char_keeps)
    with a c show False by (auto simp: ALLOWED_CONVERSION_FORMATS_def)
  qed
  then show ?thesis by (simp add: plain_format_def)
qed

lemma init_plain_format:
  "ProcessImages_init image_paths processed_image_path conversion_format retag_arg = Inr self \<Longrightarrow>
   plain_format (CONVERSION_FORMAT self)"
  by (cases conversion_format)
     (auto simp: ProcessImages_init_def allowed_plain split: if_splits, simp add: plain_format_def)

lemma outfile_is_new_filename:
  assumes "CHR ''/'' \<notin> set file_name" "plain_format fmt"
  shows "fst (splitext (new_filename_of (sha1_hexdigest d) file_name fmt)) @ ''.'' @ fmt =
         new_filename_of (sha1_hexdigest d) file_name fmt"
proof -
  let ?h = "sha1_hexdigest d"
  let ?stem = "?h @ ''_'' @ fst (splitext file_name)"
  from sha1_hexdigest_shape [of d] have len: "length ?h = 40"
    and hex: "set ?h \<subseteq> set hex_chars" by blast+
  from len have ne: "?h \<noteq> []" by auto
  then have "hd ?h \<in> set ?h" by simp
  with hex have hd: "hd ?h \<noteq> CHR ''.''" by (auto simp: hex_chars_def)
  from hex have nsl: "CHR ''/'' \<notin> set ?h" by (auto simp: hex_chars_def)
  from assms(1) splitext_fst_subset [of file_name] have nb: "CHR ''/'' \<notin> set (fst (splitext file_name))"
    by blast
  have "splitext (?stem @ CHR ''.'' # fmt) = (?stem, CHR ''.'' # fmt)"
    using ne hd nsl nb assms(2) by (intro splitext_stem_ext) (auto simp: plain_format_def)
  then show ?thesis by (simp add: new_filename_of_def)
qed

text \<open>Evaluating the digest and a run on concrete inputs.\<close>

lemma expand_numeral:
  "expand (numeral k) ws =
     expand (pred_numeral k) (ws @ [rotl32 1 (ws ! (length ws - 3) XOR ws ! (length ws - 8) XOR
                              ws ! (length ws - 14) XOR ws ! (length ws - 16))])"
  by (simp add: numeral_eq_Suc)

lemma blocks_numeral:
  "blocks (numeral k) ws = take 16 ws # blocks (pred_numeral k) (drop 16 ws)"
  by (simp add: numeral_eq_Suc)

lemma replicate_numeral_Cons: "replicate (numeral k) x = x # replicate (pred_numeral k) x"
  by (simp add: numeral_eq_Suc)

lemmas sha1_eval = sha1_hexdigest_def sha1_def sha1_pad_def be64_def sha1_block_def sha1_init_def
  add32_def rotl32_def not32_def sha1_f_def sha1_k_def hex32_def hex_digit_def hex_chars_def
  expand_numeral blocks_numeral replicate_numeral_Cons

lemma sha1_photos: "sha1_hexdigest ''/photos'' = ''26525bcdfc8ab4b77c0a5cfdccb3ee89dcea8178''"
  by (simp add: sha1_eval)

section \<open>write\_iptc\_tags\<close>

lemma IptcTag_key: "IptcTag key values = Inr (k, vs) \<Longrightarrow> k = key"
  by (auto simp: IptcTag_def split: pyval.splits if_splits)

lemma setitem_other:
  "key \<noteq> k \<Longrightarrow> map_of (iptc (ImageMetadata_setitem meta (k, vs))) key = map_of (iptc meta) key"
  by (simp add: ImageMetadata_setitem_def update_conv' delete_conv')

text \<open>
  Claim C9. \<^verbatim>\<open>write_iptc_tags\<close> always returns a boolean and never raises, whatever is
  passed as tag data. When the tag data is a dictionary whose \<^verbatim>\<open>iptc_key\<close> is
  \<^verbatim>\<open>Iptc.Application2.Keywords\<close> and whose \<^verbatim>\<open>tags\<close> are a list of strings, and the
  destination file is there and pyexiv2 can read and write it, it writes and returns
  \<^verbatim>\<open>True\<close>: the file then holds these values under the keyword key (no keyword record at
  all when the list is empty), its other records being kept. It returns \<^verbatim>\<open>False\<close>, the files
  being as before, in every case but that of the keyword key with tags that
  \<^verbatim>\<open>pyexiv2.IptcTag\<close> accepts and a destination that can be read and written: so for
  another key, for tag data that is no dictionary or lacks an entry (line 76 or 78 raises),
  for tags that \<^verbatim>\<open>IptcTag\<close> refuses (line 82 raises), and for a missing, unreadable or
  unwritable file (line 81 or 83 raises). Whenever it returns \<^verbatim>\<open>True\<close>, the destination was
  there and only its keyword record may have changed.
\<close>

theorem write_iptc_tags_boundary:
  "(\<exists>written fs'. write_iptc_tags fs path file_name tagdata = Inr (written, fs')) \<and>
   (py_getitem tagdata ''iptc_key'' = Inr (PyStr ''Iptc.Application2.Keywords'') \<and>
    py_getitem tagdata ''tags'' = Inr (PyList vs) \<and> list_all is_str vs \<and>
    lookup_file fs path file_name = Some img \<and> exiv_readable img \<and> exiv_writable img \<longrightarrow>
      (\<exists>img'. write_iptc_tags fs path file_name tagdata =
                 Inr (True, store_file fs path file_name img') \<and>
              lookup_file (store_file fs path file_name img') path file_name = Some img' \<and>
              map_of (iptc img') ''Iptc.Application2.Keywords'' =
                (if vs = [] then None else Some (map str_value vs)) \<and>
              (\<forall>key. key \<noteq> ''Iptc.Application2.Keywords'' \<longrightarrow>
                 map_of (iptc img') key = map_of (iptc img) key) \<and>
              decodable img' = decodable img \<and> loadable img' = loadable img \<and>
              exiv_readable img' \<and> exiv_writable img')) \<and>
   (\<not> (py_getitem tagdata ''iptc_key'' = Inr (PyStr ''Iptc.Application2.Keywords'') \<and>
       (\<exists>tv tag. py_getitem tagdata ''tags'' = Inr tv \<and>
                 IptcTag ''Iptc.Application2.Keywords'' tv = Inr tag) \<and>
       (\<exists>img. lookup_file fs path file_name = Some img \<and> exiv_readable img \<and> exiv_writable img)) \<longrightarrow>
      write_iptc_tags fs path file_name tagdata = Inr (False, fs)) \<and>
   (write_iptc_tags fs path file_name tagdata = Inr (True, fs1) \<longrightarrow>
      (\<exists>img0 img1. lookup_file fs path file_name = Some img0 \<and>
         fs1 = store_file fs path file_name img1 \<and>
         (\<forall>key. key \<noteq> ''Iptc.Application2.Keywords'' \<longrightarrow>
            map_of (iptc img1) key = map_of (iptc img0) key)))"
proof -
  have total: "\<exists>written fs'. write_iptc_tags fs path file_name tagdata = Inr (written, fs')"
    by (rule write_iptc_tags_total)
  have ok: "\<exists>img'. write_iptc_tags fs path file_name tagdata =
                 Inr (True, store_file fs path file_name img') \<and>
              lookup_file (store_file fs path file_name img') path file_name = Some img' \<and>
              map_of (iptc img') ''Iptc.Application2.Keywords'' =
                (if vs = [] then None else Some (map str_value vs)) \<and>
              (\<forall>key. key \<noteq> ''Iptc.Application2.Keywords'' \<longrightarrow>
                 map_of (iptc img') key = map_of (iptc img) key) \<and>
              decodable img' = decodable img \<and> loadable img' = loadable img \<and>
              exiv_readable img' \<and> exiv_writable img'"
    if k: "py_getitem tagdata ''iptc_key'' = Inr (PyStr ''Iptc.Application2.Keywords'')"
      and t: "py_getitem tagdata ''tags'' = Inr (PyList vs)" and s: "list_all is_str vs"
      and l: "lookup_file fs path file_name = Some img" and r: "exiv_readable img"
      and w: "exiv_writable img"
  proof -
    let ?img' = "ImageMetadata_setitem img (''Iptc.Application2.Keywords'', map str_value vs)"
    have res: "write_iptc_tags fs path file_name tagdata =
        Inr (True, store_file fs path file_name ?img')"
      using k t s l r w
      by (simp add: write_iptc_tags_def try_except_def IptcTag_def ImageMetadata_read_def
            ImageMetadata_write_def)
    from l have "fs path \<noteq> None" by (auto simp: lookup_file_def split: option.splits)
    then have stored: "lookup_file (store_file fs path file_name ?img') path file_name = Some ?img'"
      by (simp add: lookup_store_file)
    have kw: "map_of (iptc ?img') ''Iptc.Application2.Keywords'' =
        (if vs = [] then None else Some (map str_value vs))"
      by (simp add: ImageMetadata_setitem_def update_conv' delete_conv')
    have other: "map_of (iptc ?img') key = map_of (iptc img) key"
      if "key \<noteq> ''Iptc.Application2.Keywords''" for key
      using that by (rule setitem_other)
    from res stored kw other r w show ?thesis
      by (intro exI [of _ ?img']) simp
  qed
  have no: "write_iptc_tags fs path file_name tagdata = Inr (False, fs)"
    if n: "\<not> (py_getitem tagdata ''iptc_key'' = Inr (PyStr ''Iptc.Application2.Keywords'') \<and>
       (\<exists>tv tag. py_getitem tagdata ''tags'' = Inr tv \<and>
                 IptcTag ''Iptc.Application2.Keywords'' tv = Inr tag) \<and>
       (\<exists>img. lookup_file fs path file_name = Some img \<and> exiv_readable img \<and> exiv_writable img))"
    using n
    by (auto simp: write_iptc_tags_def try_except_def ImageMetadata_read_def
          ImageMetadata_write_def split: sum.splits option.splits if_splits)
  have only: "\<exists>img0 img1. lookup_file fs path file_name = Some img0 \<and>
         fs1 = store_file fs path file_name img1 \<and>
         (\<forall>key. key \<noteq> ''Iptc.Application2.Keywords'' \<longrightarrow>
            map_of (iptc img1) key = map_of (iptc img0) key)"
    if t: "write_iptc_tags fs path file_name tagdata = Inr (True, fs1)"
  proof -
    from t obtain tv m k ws where
      tg: "IptcTag ''Iptc.Application2.Keywords'' tv = Inr (k, ws)"
      and rd: "ImageMetadata_read fs path file_name = Inr m"
      and eq: "fs1 = store_file fs path file_name (ImageMetadata_setitem m (k, ws))"
      by (auto simp: write_iptc_tags_def try_except_def ImageMetadata_write_def
            split: sum.splits if_splits)
    from tg have k: "k = ''Iptc.Application2.Keywords''" by (rule IptcTag_key)
    from rd have l: "lookup_file fs path file_name = Some m"
      by (auto simp: ImageMetadata_read_def split: option.splits if_splits)
    from l eq k setitem_other [of _ k m ws] show ?thesis by blast
  qed
  from total ok no only show ?thesis by blast
qed

theorem write_iptc_tags_boundary_witness:
  "(\<exists>img'. write_iptc_tags tag_fs ''/processed'' ''x.jpg''
             (PyDict [(''iptc_key'', PyStr KEYWORDS), (''tags'', PyList [PyStr ''a''])]) =
           Inr (True, store_file tag_fs ''/processed'' ''x.jpg'' img') \<and>
         map_of (iptc img') KEYWORDS = Some [''a'']) \<and>
   write_iptc_tags tag_fs ''/processed'' ''x.jpg''
      (PyDict [(''iptc_key'', PyStr KEYWORDS), (''tags'', PyList [PyStr ''a''])]) =
     Inr (True, store_file tag_fs ''/processed'' ''x.jpg'' (bare_image\<lparr>iptc := [(KEYWORDS, [''a''])]\<rparr>)) \<and>
   write_iptc_tags tag_fs ''/processed'' ''t.jpg''
      (PyDict [(''iptc_key'', PyStr KEYWORDS), (''tags'', PyList [])]) =
     Inr (True, store_file tag_fs ''/processed'' ''t.jpg'' (tagged_image\<lparr>iptc := []\<rparr>)) \<and>
   write_iptc_tags tag_fs ''/processed'' ''x.jpg''
      (PyDict [(''iptc_key'', PyStr ''Iptc.Application2.Caption''), (''tags'', PyList [PyStr ''a''])]) =
     Inr (False, tag_fs) \<and>
   write_iptc_tags tag_fs ''/processed'' ''x.jpg'' PyNone = Inr (False, tag_fs) \<and>
   write_iptc_tags tag_fs ''/processed'' ''x.jpg'' (PyDict [(''iptc_key'', PyStr KEYWORDS)]) =
     Inr (False, tag_fs) \<and>
   write_iptc_tags tag_fs ''/processed'' ''x.jpg''
      (PyDict [(''iptc_key'', PyStr KEYWORDS), (''tags'', PyStr ''a'')]) = Inr (False, tag_fs) \<and>
   write_iptc_tags tag_fs ''/processed'' ''x.jpg''
      (PyDict [(''iptc_key'', PyStr KEYWORDS), (''tags'', PyList [PyStr ''a'', PyInt 1])]) =
     Inr (False, tag_fs) \<and>
   write_iptc_tags tag_fs ''/processed'' ''missing.jpg''
      (PyDict [(''iptc_key'', PyStr KEYWORDS), (''tags'', PyList [PyStr ''a''])]) = Inr (False, tag_fs) \<and>
   write_iptc_tags tag_fs ''/processed'' ''locked.jpg''
      (PyDict [(''iptc_key'', PyStr KEYWORDS), (''tags'', PyList [PyStr ''a''])]) = Inr (False, tag_fs)"
proof -
  let ?good = "PyDict [(''iptc_key'', PyStr KEYWORDS), (''tags'', PyList [PyStr ''a''])]"
  have x: "lookup_file tag_fs ''/processed'' ''x.jpg'' = Some bare_image"
    and t: "lookup_file tag_fs ''/processed'' ''t.jpg'' = Some tagged_image"
    and m: "lookup_file tag_fs ''/processed'' ''missing.jpg'' = None"
    and l: "lookup_file tag_fs ''/processed'' ''locked.jpg'' = Some (bare_image\<lparr>exiv_writable := False\<rparr>)"
    by (simp_all add: lookup_file_def tag_fs_def)
  have w1: "write_iptc_tags tag_fs ''/processed'' ''x.jpg'' ?good =
     Inr (True, store_file tag_fs ''/processed'' ''x.jpg'' (bare_image\<lparr>iptc := [(KEYWORDS, [''a''])]\<rparr>))"
    using x
    by (simp add: write_iptc_tags_def try_except_def py_getitem_def IptcTag_def is_str_def
          str_value_def ImageMetadata_read_def ImageMetadata_write_def ImageMetadata_setitem_def
          example_defs)
  have w2: "write_iptc_tags tag_fs ''/processed'' ''t.jpg''
      (PyDict [(''iptc_key'', PyStr KEYWORDS), (''tags'', PyList [])]) =
     Inr (True, store_file tag_fs ''/processed'' ''t.jpg'' (tagged_image\<lparr>iptc := []\<rparr>))"
    using t
    by (simp add: write_iptc_tags_def try_except_def py_getitem_def IptcTag_def
          ImageMetadata_read_def ImageMetadata_write_def ImageMetadata_setitem_def
          AList.delete_eq example_defs)
  have flags: "exiv_readable bare_image" "exiv_writable bare_image"
    by (simp_all add: bare_image_def)
  from write_iptc_tags_boundary [where fs = tag_fs and path = "''/processed''"
      and file_name = "''x.jpg''" and tagdata = ?good and vs = "[PyStr ''a'']" and img = bare_image]
    x flags
  have w0: "\<exists>img'. write_iptc_tags tag_fs ''/processed'' ''x.jpg'' ?good =
           Inr (True, store_file tag_fs ''/processed'' ''x.jpg'' img') \<and>
         map_of (iptc img') KEYWORDS = Some [''a'']"
    by (simp add: py_getitem_def is_str_def str_value_def KEYWORDS_def) blast
  show ?thesis
    using w0 w1 w2
      write_iptc_tags_boundary [where fs = tag_fs and path = "''/processed''" and file_name = "''x.jpg''"
        and tagdata = "PyDict [(''iptc_key'', PyStr ''Iptc.Application2.Caption''),
                               (''tags'', PyList [PyStr ''a''])]"]
      write_iptc_tags_boundary [where fs = tag_fs and path = "''/processed''" and file_name = "''x.jpg''"
        and tagdata = PyNone]
      write_iptc_tags_boundary [where fs = tag_fs and path = "''/processed''" and file_name = "''x.jpg''"
        and tagdata = "PyDict [(''iptc_key'', PyStr KEYWORDS)]"]
      write_iptc_tags_boundary [where fs = tag_fs and path = "''/processed''" and file_name = "''x.jpg''"
        and tagdata = "PyDict [(''iptc_key'', PyStr KEYWORDS), (''tags'', PyStr ''a'')]"]
      write_iptc_tags_boundary [where fs = tag_fs and path = "''/processed''" and file_name = "''x.jpg''"
        and tagdata = "PyDict [(''iptc_key'', PyStr KEYWORDS), (''tags'', PyList [PyStr ''a'', PyInt 1])]"]
      write_iptc_tags_boundary [where fs = tag_fs and path = "''/processed''"
        and file_name = "''missing.jpg''" and tagdata = ?good]
      write_iptc_tags_boundary [where fs = tag_fs and path = "''/processed''"
        and file_name = "''locked.jpg''" and tagdata = ?good]
      m l
    by (simp add: py_getitem_def IptcTag_def is_str_def KEYWORDS_def)
qed

section \<open>The retag argument\<close>

text \<open>
  Claim C10. A value given for \<^verbatim>\<open>retag\<close> that is not a boolean constructs the same object as
  \<^verbatim>\<open>retag=False\<close> does. Hence the run is that of \<^verbatim>\<open>retag=False\<close>, and for a file whose
  converted name is in the listing of the output directory the loop body neither converts
  nor tags: it makes no call and leaves the files as they are.
\<close>

theorem retag_non_boolean:
  assumes nb: "\<forall>b. retag_arg \<noteq> PyBool b"
  shows "ProcessImages_init image_paths processed_image_path conversion_format retag_arg =
           ProcessImages_init image_paths processed_image_path conversion_format (PyBool False) \<and>
         (ProcessImages_init image_paths processed_image_path conversion_format retag_arg = Inr self \<longrightarrow>
            \<not> retag self \<and>
            (new_filename_of path_hash file_name (CONVERSION_FORMAT self) \<in> set existing \<longrightarrow>
             file_body self (Some existing) image_path path_hash file_name st = (e, st') \<longrightarrow>
             e = None \<and> disk st' = disk st \<and> calls st' = calls st))"
proof -
  from nb have r: "(case retag_arg of PyBool b \<Rightarrow> b | _ \<Rightarrow> False) = False"
    by (cases retag_arg) auto
  have eq: "ProcessImages_init image_paths processed_image_path conversion_format retag_arg =
     ProcessImages_init image_paths processed_image_path conversion_format (PyBool False)"
    by (cases conversion_format) (simp_all add: ProcessImages_init_def r)
  have beh: "\<not> retag self \<and>
      (new_filename_of path_hash file_name (CONVERSION_FORMAT self) \<in> set existing \<longrightarrow>
       file_body self (Some existing) image_path path_hash file_name st = (e, st') \<longrightarrow>
       e = None \<and> disk st' = disk st \<and> calls st' = calls st)"
    if init: "ProcessImages_init image_paths processed_image_path conversion_format retag_arg = Inr self"
  proof -
    from init have nr: "\<not> retag self"
      by (auto simp: ProcessImages_init_def r split: pyval.splits)
    have "e = None \<and> disk st' = disk st \<and> calls st' = calls st"
      if mem: "new_filename_of path_hash file_name (CONVERSION_FORMAT self) \<in> set existing"
        and fb: "file_body self (Some existing) image_path path_hash file_name st = (e, st')"
    proof (cases "os_path_isdir (disk st) image_path file_name")
      case True
      with fb show ?thesis by (simp add: file_body_def)
    next
      case False
      from fb show ?thesis
        unfolding file_body_skip [OF nr mem False] by auto
    qed
    with nr show ?thesis by blast
  qed
  from eq beh show ?thesis by blast
qed

theorem retag_non_boolean_witness:
  "ProcessImages_init [''/photos''] ''/processed'' (PyStr ''jpg'') (PyStr ''True'') =
     ProcessImages_init [''/photos''] ''/processed'' (PyStr ''jpg'') (PyBool False) \<and>
   (\<exists>st'. file_body \<lparr>ORIGINAL_IMAGE_PATHS = [''/photos''], PROCESSED_IMAGE_PATH = ''/processed'',
                      CONVERSION_FORMAT = ''jpg'', retag = False\<rparr>
            (Some [new_filename_of ''h'' ''a.tif'' ''jpg'']) ''/photos'' ''h'' ''a.tif''
            (initial_state out_fs) = (None, st') \<and>
          disk st' = out_fs \<and> calls st' = [])"
proof -
  have nb: "\<forall>b. PyStr ''True'' \<noteq> PyBool b" by simp
  have init: "ProcessImages_init [''/photos''] ''/processed'' (PyStr ''jpg'') (PyStr ''True'') =
      Inr \<lparr>ORIGINAL_IMAGE_PATHS = [''/photos''], PROCESSED_IMAGE_PATH = ''/processed'',
               CONVERSION_FORMAT = ''jpg'', retag = False\<rparr>"
    by (simp add: ProcessImages_init_def py_lower_def lower_char_def ALLOWED_CONVERSION_FORMATS_def)
  obtain e st' where fb:
    "file_body \<lparr>ORIGINAL_IMAGE_PATHS = [''/photos''], PROCESSED_IMAGE_PATH = ''/processed'',
                 CONVERSION_FORMAT = ''jpg'', retag = False\<rparr>
       (Some [new_filename_of ''h'' ''a.tif'' ''jpg'']) ''/photos'' ''h'' ''a.tif''
       (initial_state out_fs) = (e, st')"
    by (meson surj_pair)
  show ?thesis
    using retag_non_boolean [OF nb, of "[''/photos'']" "''/processed''" "PyStr ''jpg''"
        "\<lparr>ORIGINAL_IMAGE_PATHS = [''/photos''], PROCESSED_IMAGE_PATH = ''/processed'',
          CONVERSION_FORMAT = ''jpg'', retag = False\<rparr>" "''h''" "''a.tif''"
        "[new_filename_of ''h'' ''a.tif'' ''jpg'']" "''/photos''" "initial_state out_fs" e st']
      init fb
    by (simp add: initial_state_def)
qed

section \<open>The conversion format\<close>

text \<open>
  Claim C7, as amended. Construction with a format string never raises. The string is
  compared with the allow-list after lowering it: a string whose lower-case form is not one
  of jpeg, jpg, tiff, tif, png is replaced by \<^verbatim>\<open>jpg\<close>, and then converted names and converted
  files end in \<^verbatim>\<open>.jpg\<close>. A string whose lower-case form is in the list is kept as it was given.
\<close>

theorem conversion_format_fallback:
  "(\<exists>self. ProcessImages_init image_paths processed_image_path (PyStr s) retag_arg = Inr self \<and>
       CONVERSION_FORMAT self = (if py_lower s \<in> set ALLOWED_CONVERSION_FORMATS then s else ''jpg'')) \<and>
   (py_lower s \<notin> set ALLOWED_CONVERSION_FORMATS \<longrightarrow>
      ProcessImages_init image_paths processed_image_path (PyStr s) retag_arg = Inr self \<longrightarrow>
      CONVERSION_FORMAT self = ''jpg'' \<and>
      new_filename_of path_hash file_name (CONVERSION_FORMAT self) =
        path_hash @ ''_'' @ fst (splitext file_name) @ ''.jpg'' \<and>
      (convert_format fs file_name new_filename image_path processed_image_path (CONVERSION_FORMAT self)
         = Inr (Some c, fs') \<longrightarrow> filename c = fst (splitext new_filename) @ ''.jpg''))"
  by (auto simp: ProcessImages_init_def new_filename_of_def convert_format_eq
           split: prod.splits option.splits)

theorem conversion_format_fallback_witness:
  "ProcessImages_init [''/photos''] ''/processed'' (PyStr ''bmp'') (PyBool False) =
     Inr \<lparr>ORIGINAL_IMAGE_PATHS = [''/photos''], PROCESSED_IMAGE_PATH = ''/processed'',
          CONVERSION_FORMAT = ''jpg'', retag = False\<rparr> \<and>
   new_filename_of ''h'' ''photo.tif'' ''jpg'' = ''h_photo.jpg''"
proof -
  have no: "py_lower ''bmp'' \<notin> set ALLOWED_CONVERSION_FORMATS"
    by (simp add: py_lower_def lower_char_def ALLOWED_CONVERSION_FORMATS_def)
  have init: "ProcessImages_init [''/photos''] ''/processed'' (PyStr ''bmp'') (PyBool False) =
     Inr \<lparr>ORIGINAL_IMAGE_PATHS = [''/photos''], PROCESSED_IMAGE_PATH = ''/processed'',
          CONVERSION_FORMAT = ''jpg'', retag = False\<rparr>"
    using no by (simp add: ProcessImages_init_def)
  have sp: "fst (splitext ''photo.tif'') = ''photo''"
    by (simp add: splitext_def rfind_def splitext_scan.simps)
  show ?thesis
    using conversion_format_fallback [of "[''/photos'']" "''/processed''" "''bmp''" "PyBool False"
        "\<lparr>ORIGINAL_IMAGE_PATHS = [''/photos''], PROCESSED_IMAGE_PATH = ''/processed'',
          CONVERSION_FORMAT = ''jpg'', retag = False\<rparr>" "''h''" "''photo.tif''"] no init sp
    by simp
qed

text \<open>
  The claim as stated fails for a string that is in the list only after lowering:
  \<^verbatim>\<open>JPG\<close> is not a member of the list, and it is kept, not replaced by \<^verbatim>\<open>jpg\<close>.
\<close>

theorem upper_case_format_kept:
  "''JPG'' \<notin> set ALLOWED_CONVERSION_FORMATS \<and>
   ProcessImages_init [''/photos''] ''/processed'' (PyStr ''JPG'') (PyBool False) =
     Inr \<lparr>ORIGINAL_IMAGE_PATHS = [''/photos''], PROCESSED_IMAGE_PATH = ''/processed'',
          CONVERSION_FORMAT = ''JPG'', retag = False\<rparr> \<and>
   new_filename_of ''h'' ''photo.tif'' ''JPG'' = ''h_photo.JPG''"
  by (simp add: ProcessImages_init_def py_lower_def lower_char_def ALLOWED_CONVERSION_FORMATS_def
        new_filename_of_def splitext_def rfind_def splitext_scan.simps)


section \<open>Images without metadata\<close>

lemma tag_loop_sentinel:
  "tag_loop self new_filename [\<lparr>iptc_key = [], tags = []\<rparr>] st =
     (None, st\<lparr>processed_data := (processed_data st)\<lparr>tag_data := \<lparr>iptc_key = [], tags = []\<rparr>\<rparr>\<rparr>)"
  by simp

lemma Image_open_save_bare:
  assumes "lookup_file fs p f = Some img" "exiv_readable img" "iptc img = []"
    and "Image_open_save fs path orig save_path outfile = (r, fs')"
    and "outfile \<noteq> f"
  shows "\<exists>img'. lookup_file fs' p f = Some img' \<and> exiv_readable img' \<and> iptc img' = []"
  using assms
  by (auto simp: Image_open_save_def lookup_store_file pil_encode_def split: option.splits if_splits)

lemma ImageMetadata_read_bare:
  assumes "lookup_file fs p f = Some img" "exiv_readable img" "iptc img = []"
  shows "read_iptc_tags fs f p = Inr (Some [\<lparr>iptc_key = [], tags = []\<rparr>])"
  using assms by (simp add: read_iptc_tags_eq ImageMetadata_read_def)

text \<open>
  Claim C8. For a source image that pyexiv2 can read and that has no IPTC record,
  \<^verbatim>\<open>read_iptc_tags\<close> returns the list of exactly one record with empty key and empty
  tags, and the loop body for this file makes no call of \<^verbatim>\<open>write_iptc_tags\<close>; when the
  file is tagged at all (newly converted, or retag set) the yielded record carries that
  empty record.
\<close>

theorem no_metadata_sentinel:
  assumes "lookup_file fs image_path file_name = Some img" "exiv_readable img" "iptc img = []"
  shows "read_iptc_tags fs file_name image_path = Inr (Some [\<lparr>iptc_key = [], tags = []\<rparr>]) \<and>
         (disk st = fs \<longrightarrow>
          file_body self (Some existing) image_path path_hash file_name st = (e, st') \<longrightarrow>
            e = None \<and> filter is_write (calls st') = filter is_write (calls st) \<and>
            (retag self \<or> new_filename_of path_hash file_name (CONVERSION_FORMAT self) \<notin> set existing \<longrightarrow>
               tag_data (processed_data st') = \<lparr>iptc_key = [], tags = []\<rparr> \<and>
               tag_data (last (yielded st')) = \<lparr>iptc_key = [], tags = []\<rparr>))"
proof -
  note rd = ImageMetadata_read_bare [OF assms]
  have nd: "\<not> os_path_isdir fs image_path file_name"
    using assms(1) by (auto simp: os_path_isdir_def lookup_file_def split: option.splits)
  have "e = None \<and> filter is_write (calls st') = filter is_write (calls st) \<and>
            (retag self \<or> new_filename_of path_hash file_name (CONVERSION_FORMAT self) \<notin> set existing \<longrightarrow>
               tag_data (processed_data st') = \<lparr>iptc_key = [], tags = []\<rparr> \<and>
               tag_data (last (yielded st')) = \<lparr>iptc_key = [], tags = []\<rparr>)"
    if d: "disk st = fs"
      and fb: "file_body self (Some existing) image_path path_hash file_name st = (e, st')"
  proof (cases "new_filename_of path_hash file_name (CONVERSION_FORMAT self) \<in> set existing")
    case True
    with fb d nd rd show ?thesis
      by (cases "retag self") (auto simp: file_body_def convert_or_skip_def tag_or_skip_def Let_def)
  next
    case False
    let ?out = "fst (splitext (new_filename_of path_hash file_name (CONVERSION_FORMAT self))) @ ''.'' @ CONVERSION_FORMAT self"
    obtain r fs1 where
      save: "Image_open_save fs image_path file_name (PROCESSED_IMAGE_PATH self) ?out = (r, fs1)"
      by (meson surj_pair)
    from Image_open_save_bare [OF assms save outfile_not_source] obtain img' where
      "lookup_file fs1 image_path file_name = Some img'" "exiv_readable img'" "iptc img' = []"
      by blast
    then have "read_iptc_tags fs1 file_name image_path = Inr (Some [\<lparr>iptc_key = [], tags = []\<rparr>])"
      by (rule ImageMetadata_read_bare)
    with save False fb d nd show ?thesis
      by (cases "retag self"; cases r)
         (auto simp: file_body_def convert_or_skip_def tag_or_skip_def Let_def convert_format_eq)
  qed
  with rd show ?thesis by blast
qed


theorem no_metadata_sentinel_witness:
  "read_iptc_tags photos_fs ''c.tif'' ''/photos'' = Inr (Some [\<lparr>iptc_key = [], tags = []\<rparr>]) \<and>
   (\<exists>st'. file_body example_self (Some []) ''/photos'' ''h'' ''c.tif'' (initial_state photos_fs)
            = (None, st') \<and>
          filter is_write (calls st') = [] \<and>
          tag_data (processed_data st') = \<lparr>iptc_key = [], tags = []\<rparr>)"
proof -
  have l: "lookup_file photos_fs ''/photos'' ''c.tif'' = Some bare_image"
    by (simp add: lookup_file_def photos_fs_def)
  have r: "exiv_readable bare_image" and i: "iptc bare_image = []"
    by (simp_all add: bare_image_def)
  obtain e st' where fb:
    "file_body example_self (Some []) ''/photos'' ''h'' ''c.tif'' (initial_state photos_fs) = (e, st')"
    by (meson surj_pair)
  show ?thesis
    using no_metadata_sentinel [OF l r i, of "initial_state photos_fs" example_self "[]" "''h''" e st'] fb
    by (simp add: initial_state_def)
qed

section \<open>The provenance marker\<close>

lemma tag_loop_calls:
  "\<exists>st'. tag_loop self new_filename tag_list st = (None, st') \<and>
      calls st' = calls st @
        map (\<lambda>t. WriteCall (PROCESSED_IMAGE_PATH self) new_filename (t\<lparr>tags := tags t @ [PROVENANCE]\<rparr>))
          (filter (\<lambda>t. tags t \<noteq> []) tag_list) \<and>
      yielded st' = yielded st \<and>
      conversion_data (processed_data st') = conversion_data (processed_data st)"
proof (induction tag_list arbitrary: st)
  case Nil
  show ?case by simp
next
  case (Cons tag rest)
  show ?case
  proof (cases "tags tag = []")
    case True
    with Cons [of "st\<lparr>processed_data := (processed_data st)\<lparr>tag_data := tag\<rparr>\<rparr>"]
    show ?thesis by simp
  next
    case False
    obtain written fs' where w:
      "write_iptc_tags (disk st) (PROCESSED_IMAGE_PATH self) new_filename
         (tag_dict (tag\<lparr>tags := tags tag @ [PROVENANCE]\<rparr>)) = Inr (written, fs')"
      using write_iptc_tags_total by blast
    with False
      Cons [of "st\<lparr>processed_data := (processed_data st)\<lparr>tag_data := tag\<lparr>tags := tags tag @ [PROVENANCE]\<rparr>\<rparr>,
                  calls := calls st @ [WriteCall (PROCESSED_IMAGE_PATH self) new_filename
                                          (tag\<lparr>tags := tags tag @ [PROVENANCE]\<rparr>)],
                  disk := fs'\<rparr>"]
    show ?thesis by (simp add: Let_def)
  qed
qed

lemma file_body_keywords:
  assumes src: "lookup_file (disk st) image_path file_name = Some img"
    and img: "decodable img" "exiv_readable img" "iptc img = [(''Iptc.Application2.Keywords'', ts)]"
    and ts: "ts \<noteq> []"
    and out: "disk st (PROCESSED_IMAGE_PATH self) \<noteq> None"
      "\<not> os_path_isdir (disk st) (PROCESSED_IMAGE_PATH self)
          (new_filename_of (sha1_hexdigest image_path) file_name (CONVERSION_FORMAT self))"
      "image_path \<noteq> PROCESSED_IMAGE_PATH self"
    and new: "new_filename_of (sha1_hexdigest image_path) file_name (CONVERSION_FORMAT self) \<notin> set existing"
    and wf: "CHR ''/'' \<notin> set file_name" "plain_format (CONVERSION_FORMAT self)"
  shows "\<exists>st' img'.
      file_body self (Some existing) image_path (sha1_hexdigest image_path) file_name st = (None, st') \<and>
      lookup_file (disk st') (PROCESSED_IMAGE_PATH self)
        (new_filename_of (sha1_hexdigest image_path) file_name (CONVERSION_FORMAT self)) = Some img' \<and>
      map_of (iptc img') ''Iptc.Application2.Keywords'' = Some (ts @ [PROVENANCE]) \<and>
      yielded st' = yielded st @
        [\<lparr>conversion_data = Some \<lparr>orig_path = image_path, processed_path = PROCESSED_IMAGE_PATH self,
             filename = new_filename_of (sha1_hexdigest image_path) file_name (CONVERSION_FORMAT self)\<rparr>,
          tag_data = \<lparr>iptc_key = ''Iptc.Application2.Keywords'', tags = ts @ [PROVENANCE]\<rparr>\<rparr>]"
proof -
  let ?new = "new_filename_of (sha1_hexdigest image_path) file_name (CONVERSION_FORMAT self)"
  let ?out = "PROCESSED_IMAGE_PATH self"
  have nd: "\<not> os_path_isdir (disk st) image_path file_name"
    using src by (auto simp: os_path_isdir_def lookup_file_def split: option.splits)
  note same = outfile_is_new_filename [OF wf, of image_path, simplified]
  have save: "Image_open_save (disk st) image_path file_name ?out ?new =
      (None, store_file (disk st) ?out ?new (pil_encode img))"
    using src img out by (simp add: Image_open_save_def)
  let ?fs1 = "store_file (disk st) ?out ?new (pil_encode img)"
  have l1: "lookup_file ?fs1 ?out ?new = Some (pil_encode img)"
    using out by (simp add: lookup_store_file)
  have l2: "lookup_file ?fs1 image_path file_name = Some img"
    using out src by (simp add: lookup_store_file)
  have rd: "read_iptc_tags ?fs1 file_name image_path =
      Inr (Some [\<lparr>iptc_key = ''Iptc.Application2.Keywords'', tags = ts\<rparr>])"
    using l2 img by (simp add: read_iptc_tags_eq ImageMetadata_read_def)
  have fs1_out: "?fs1 ?out \<noteq> None"
    using out by (auto simp: store_file_def)
  have wr: "write_iptc_tags ?fs1 ?out ?new
        (tag_dict \<lparr>iptc_key = ''Iptc.Application2.Keywords'', tags = ts @ [PROVENANCE]\<rparr>) =
      Inr (True, store_file ?fs1 ?out ?new
            ((pil_encode img)\<lparr>iptc := [(''Iptc.Application2.Keywords'', ts @ [PROVENANCE])]\<rparr>))"
    using l1 by (simp add: write_iptc_tags_eq ImageMetadata_setitem_def pil_encode_def)
  show ?thesis
    using nd new ts fs1_out
    by (simp add: file_body_def convert_or_skip_def tag_or_skip_def convert_format_eq same save rd wr
          Let_def lookup_store_file)
qed

text \<open>
  Claim C4. The tag loop attempts one write for each record with a non-empty tag list, in
  order, and what it writes is the record with the one string
  \<^verbatim>\<open>SPM: TAGS COPIED FROM ORIGINAL\<close> appended; a record with an empty tag list causes no
  write and is stored in \<^verbatim>\<open>processed_data\<close> unchanged. For a decodable source file with the
  keyword tags \<open>ts\<close> that is not yet converted, the converted file holds \<open>ts\<close> followed by the
  marker under the keyword key after the loop body, and the yielded record says so.
\<close>

theorem provenance_marker:
  "PROVENANCE = ''SPM: TAGS COPIED FROM ORIGINAL'' \<and>
   (\<exists>st'. tag_loop self new_filename tag_list st = (None, st') \<and>
      calls st' = calls st @
        map (\<lambda>t. WriteCall (PROCESSED_IMAGE_PATH self) new_filename (t\<lparr>tags := tags t @ [PROVENANCE]\<rparr>))
          (filter (\<lambda>t. tags t \<noteq> []) tag_list)) \<and>
   (tags tag = [] \<longrightarrow>
      tag_loop self new_filename [tag] st =
        (None, st\<lparr>processed_data := (processed_data st)\<lparr>tag_data := tag\<rparr>\<rparr>)) \<and>
   (lookup_file (disk st) image_path file_name = Some img \<and> decodable img \<and> exiv_readable img \<and>
    iptc img = [(''Iptc.Application2.Keywords'', ts)] \<and> ts \<noteq> [] \<and>
    disk st (PROCESSED_IMAGE_PATH self) \<noteq> None \<and>
    \<not> os_path_isdir (disk st) (PROCESSED_IMAGE_PATH self)
        (new_filename_of (sha1_hexdigest image_path) file_name (CONVERSION_FORMAT self)) \<and>
    image_path \<noteq> PROCESSED_IMAGE_PATH self \<and>
    new_filename_of (sha1_hexdigest image_path) file_name (CONVERSION_FORMAT self) \<notin> set existing \<and>
    CHR ''/'' \<notin> set file_name \<and> plain_format (CONVERSION_FORMAT self) \<longrightarrow>
    (\<exists>st' img'.
      file_body self (Some existing) image_path (sha1_hexdigest image_path) file_name st = (None, st') \<and>
      lookup_file (disk st') (PROCESSED_IMAGE_PATH self)
        (new_filename_of (sha1_hexdigest image_path) file_name (CONVERSION_FORMAT self)) = Some img' \<and>
      map_of (iptc img') ''Iptc.Application2.Keywords'' = Some (ts @ [PROVENANCE]) \<and>
      yielded st' = yielded st @
        [\<lparr>conversion_data = Some \<lparr>orig_path = image_path, processed_path = PROCESSED_IMAGE_PATH self,
             filename = new_filename_of (sha1_hexdigest image_path) file_name (CONVERSION_FORMAT self)\<rparr>,
          tag_data = \<lparr>iptc_key = ''Iptc.Application2.Keywords'', tags = ts @ [PROVENANCE]\<rparr>\<rparr>]))"
proof -
  have a: "\<exists>st'. tag_loop self new_filename tag_list st = (None, st') \<and>
      calls st' = calls st @
        map (\<lambda>t. WriteCall (PROCESSED_IMAGE_PATH self) new_filename (t\<lparr>tags := tags t @ [PROVENANCE]\<rparr>))
          (filter (\<lambda>t. tags t \<noteq> []) tag_list)"
    using tag_loop_calls [of self new_filename tag_list st] by blast
  have b: "tags tag = [] \<longrightarrow>
      tag_loop self new_filename [tag] st =
        (None, st\<lparr>processed_data := (processed_data st)\<lparr>tag_data := tag\<rparr>\<rparr>)"
    by simp
  show ?thesis
    using a b file_body_keywords [of st image_path file_name img ts self existing]
    by (simp only: PROVENANCE_def) blast
qed

lemma new_name_a: "new_filename_of (sha1_hexdigest ''/photos'') ''a.tif'' ''jpg'' =
    ''26525bcdfc8ab4b77c0a5cfdccb3ee89dcea8178_a.jpg''"
  by (simp add: new_filename_of_def sha1_photos splitext_def rfind_def splitext_scan.simps)

theorem provenance_marker_witness:
  "(\<exists>st' img'.
      file_body example_self (Some []) ''/photos'' (sha1_hexdigest ''/photos'') ''a.tif''
        (initial_state photos_fs) = (None, st') \<and>
      lookup_file (disk st') ''/processed'' ''26525bcdfc8ab4b77c0a5cfdccb3ee89dcea8178_a.jpg'' = Some img' \<and>
      map_of (iptc img') ''Iptc.Application2.Keywords'' =
        Some [''DATE: 1974'', ''PLACE: The Moon'', ''SPM: TAGS COPIED FROM ORIGINAL''] \<and>
      yielded st' =
        [\<lparr>conversion_data = Some \<lparr>orig_path = ''/photos'', processed_path = ''/processed'',
             filename = ''26525bcdfc8ab4b77c0a5cfdccb3ee89dcea8178_a.jpg''\<rparr>,
          tag_data = \<lparr>iptc_key = ''Iptc.Application2.Keywords'',
             tags = [''DATE: 1974'', ''PLACE: The Moon'', ''SPM: TAGS COPIED FROM ORIGINAL'']\<rparr>\<rparr>]) \<and>
   tag_loop example_self ''n.jpg'' [\<lparr>iptc_key = [], tags = []\<rparr>]
     (initial_state photos_fs) = (None, initial_state photos_fs)"
proof -
  have h: "lookup_file (disk (initial_state photos_fs)) ''/photos'' ''a.tif'' = Some tagged_image \<and>
    decodable tagged_image \<and> exiv_readable tagged_image \<and>
    iptc tagged_image = [(''Iptc.Application2.Keywords'', moon_tags)] \<and> moon_tags \<noteq> [] \<and>
    disk (initial_state photos_fs) (PROCESSED_IMAGE_PATH example_self) \<noteq> None \<and>
    \<not> os_path_isdir (disk (initial_state photos_fs)) (PROCESSED_IMAGE_PATH example_self)
        (new_filename_of (sha1_hexdigest ''/photos'') ''a.tif'' (CONVERSION_FORMAT example_self)) \<and>
    ''/photos'' \<noteq> PROCESSED_IMAGE_PATH example_self \<and>
    new_filename_of (sha1_hexdigest ''/photos'') ''a.tif'' (CONVERSION_FORMAT example_self) \<notin> set [] \<and>
    CHR ''/'' \<notin> set ''a.tif'' \<and> plain_format (CONVERSION_FORMAT example_self)"
    by (simp add: initial_state_def photos_fs_def example_self_def lookup_file_def os_path_isdir_def
          plain_format_def example_defs)
  show ?thesis
    using provenance_marker [of example_self "''n.jpg''" "[]" "initial_state photos_fs"
        "\<lparr>iptc_key = [], tags = []\<rparr>" "''/photos''" "''a.tif''"
        tagged_image moon_tags "[]"] h
    by (simp add: example_self_def new_name_a [simplified] moon_tags_def PROVENANCE_def initial_state_def)
qed

section \<open>What one loop body and the loops change\<close>

lemma extends_refl [simp]: "extends out fs fs"
  by (simp add: extends_def)

lemma extends_trans: "extends out fs fs' \<Longrightarrow> extends out fs' fs'' \<Longrightarrow> extends out fs fs''"
  by (auto simp: extends_def)

lemma file_not_isdir: "lookup_file fs d n = Some img \<Longrightarrow> \<not> os_path_isdir fs d n"
  by (auto simp: lookup_file_def os_path_isdir_def split: option.splits)

lemma isdir_store_file:
  "\<not> os_path_isdir fs out n \<Longrightarrow>
   os_path_isdir (store_file fs out n img) d n' = os_path_isdir fs d n'"
  by (auto simp: os_path_isdir_def store_file_def update_conv' split: option.splits)

lemma extends_store_file:
  "\<not> os_path_isdir fs out n \<Longrightarrow> extends out fs (store_file fs out n img)"
  unfolding extends_def
  by (intro conjI allI impI)
     (auto simp: lookup_store_file isdir_store_file, auto simp: store_file_def split: option.splits)

lemma extends_Image_open_save:
  "Image_open_save fs path orig save_path outfile = (r, fs') \<Longrightarrow>
   extends save_path fs fs' \<and>
   (r = None \<longrightarrow> lookup_file fs' save_path outfile \<noteq> None) \<and>
   ((\<forall>img. lookup_file fs path orig = Some img \<longrightarrow> \<not> decodable img) \<longrightarrow> r \<noteq> None)"
  by (auto simp: Image_open_save_def extends_store_file lookup_store_file file_not_isdir
           split: option.splits if_splits)

lemma extends_write_iptc_tags:
  "write_iptc_tags fs path n (tag_dict tag) = Inr (written, fs') \<Longrightarrow> extends path fs fs'"
  by (auto simp: write_iptc_tags_eq extends_store_file file_not_isdir
           split: if_splits option.splits)

lemma tag_loop_frame:
  "tag_loop self new_filename tag_list st = (e, st') \<Longrightarrow>
   e = None \<and> extends (PROCESSED_IMAGE_PATH self) (disk st) (disk st') \<and>
   yielded st' = yielded st \<and>
   conversion_data (processed_data st') = conversion_data (processed_data st)"
proof (induction tag_list arbitrary: st)
  case Nil
  then show ?case by auto
next
  case (Cons tag rest)
  show ?case
  proof (cases "tags tag = []")
    case True
    with Cons.prems Cons.IH [of "st\<lparr>processed_data := (processed_data st)\<lparr>tag_data := tag\<rparr>\<rparr>"]
    show ?thesis by simp
  next
    case False
    obtain written fs' where w:
      "write_iptc_tags (disk st) (PROCESSED_IMAGE_PATH self) new_filename
         (tag_dict (tag\<lparr>tags := tags tag @ [PROVENANCE]\<rparr>)) = Inr (written, fs')"
      using write_iptc_tags_total by blast
    let ?st1 = "st\<lparr>processed_data := (processed_data st)\<lparr>tag_data := tag\<lparr>tags := tags tag @ [PROVENANCE]\<rparr>\<rparr>,
                  calls := calls st @ [WriteCall (PROCESSED_IMAGE_PATH self) new_filename
                                          (tag\<lparr>tags := tags tag @ [PROVENANCE]\<rparr>)],
                  disk := fs'\<rparr>"
    from Cons.prems False w have "tag_loop self new_filename rest ?st1 = (e, st')"
      by (simp add: Let_def)
    from Cons.IH [OF this] extends_write_iptc_tags [OF w]
    show ?thesis by (auto intro: extends_trans)
  qed
qed

lemma convert_or_skip_frame:
  assumes "convert_or_skip self image_path file_name new_filename did_exist st = (e, st')"
  shows "e = None \<and> extends (PROCESSED_IMAGE_PATH self) (disk st) (disk st') \<and>
     yielded st' = yielded st \<and>
     tag_data (processed_data st') = tag_data (processed_data st) \<and>
     (did_exist \<longrightarrow> disk st' = disk st \<and> calls st' = calls st \<and>
        conversion_data (processed_data st') =
          Some \<lparr>orig_path = image_path, processed_path = PROCESSED_IMAGE_PATH self,
                filename = new_filename\<rparr>) \<and>
     (\<not> did_exist \<longrightarrow>
        calls st' = calls st @ [ConvertCall image_path file_name new_filename] \<and>
        (conversion_data (processed_data st') \<noteq> None \<longrightarrow>
           lookup_file (disk st') (PROCESSED_IMAGE_PATH self)
             (fst (splitext new_filename) @ ''.'' @ CONVERSION_FORMAT self) \<noteq> None) \<and>
        ((\<forall>img. lookup_file (disk st) image_path file_name = Some img \<longrightarrow> \<not> decodable img) \<longrightarrow>
           conversion_data (processed_data st') = None))"
proof (cases did_exist)
  case True
  with assms show ?thesis by (auto simp: convert_or_skip_def)
next
  case False
  obtain r fs1 where save:
    "Image_open_save (disk st) image_path file_name (PROCESSED_IMAGE_PATH self)
       (fst (splitext new_filename) @ ''.'' @ CONVERSION_FORMAT self) = (r, fs1)"
    by (meson surj_pair)
  from extends_Image_open_save [OF save] save False assms show ?thesis
    by (cases r) (auto simp: convert_or_skip_def convert_format_eq Let_def)
qed

lemma tag_or_skip_frame:
  assumes "tag_or_skip self image_path file_name new_filename did_exist st = (e, st')"
  shows "e = None \<and> extends (PROCESSED_IMAGE_PATH self) (disk st) (disk st') \<and>
     yielded st' = yielded st \<and>
     conversion_data (processed_data st') = conversion_data (processed_data st) \<and>
     (\<not> retag self \<and> did_exist \<longrightarrow> st' = st)"
proof (cases "retag self \<or> \<not> did_exist")
  case False
  with assms show ?thesis by (auto simp: tag_or_skip_def)
next
  case True
  let ?st1 = "st\<lparr>calls := calls st @ [ReadCall file_name image_path]\<rparr>"
  show ?thesis
  proof (cases "read_iptc_tags (disk st) file_name image_path")
    case (Inl x)
    then show ?thesis by (simp add: read_iptc_tags_eq)
  next
    case (Inr r)
    show ?thesis
    proof (cases r)
      case None
      with Inr True assms show ?thesis by (auto simp: tag_or_skip_def)
    next
      case (Some tag_list)
      show ?thesis
      proof (cases tag_list)
        case Nil
        with Some Inr True assms show ?thesis by (auto simp: tag_or_skip_def)
      next
        case (Cons t ts)
        with Some Inr True assms have "tag_loop self new_filename tag_list ?st1 = (e, st')"
          by (auto simp: tag_or_skip_def)
        from tag_loop_frame [OF this] True show ?thesis by auto
      qed
    qed
  qed
qed

lemma extends_other: "extends out fs fs' \<Longrightarrow> p \<noteq> out \<Longrightarrow> fs' p = fs p"
  by (simp add: extends_def)

lemma isdir_extends: "extends out fs fs' \<Longrightarrow> os_path_isdir fs' d n = os_path_isdir fs d n"
  by (cases "d = out") (simp_all add: extends_def os_path_isdir_def)

lemma listable_extends: "extends out fs fs' \<Longrightarrow> (fs' p = None) = (fs p = None)"
  by (cases "p = out") (simp_all add: extends_def)

lemma plain_names_extends:
  "extends out fs fs' \<Longrightarrow> d \<noteq> out \<Longrightarrow> plain_names fs' d = plain_names fs d"
  by (auto simp: extends_def plain_names_def get_filenames_eq os_path_isdir_def split: option.splits)

lemma file_body_frame:
  assumes fb: "file_body self (Some ex) d h f st = (e, st')"
  shows "e = None \<and> extends (PROCESSED_IMAGE_PATH self) (disk st) (disk st') \<and>
     (os_path_isdir (disk st) d f \<longrightarrow> st' = st) \<and>
     (\<not> os_path_isdir (disk st) d f \<longrightarrow>
        yielded st' = yielded st @ [processed_data st'] \<and>
        (new_filename_of h f (CONVERSION_FORMAT self) \<in> set ex \<longrightarrow>
           conversion_data (processed_data st') =
             Some \<lparr>orig_path = d, processed_path = PROCESSED_IMAGE_PATH self,
                   filename = new_filename_of h f (CONVERSION_FORMAT self)\<rparr>) \<and>
        (new_filename_of h f (CONVERSION_FORMAT self) \<notin> set ex \<longrightarrow>
           (conversion_data (processed_data st') \<noteq> None \<longrightarrow>
              lookup_file (disk st') (PROCESSED_IMAGE_PATH self)
                (fst (splitext (new_filename_of h f (CONVERSION_FORMAT self))) @ ''.'' @
                 CONVERSION_FORMAT self) \<noteq> None) \<and>
           ((\<forall>img. lookup_file (disk st) d f = Some img \<longrightarrow> \<not> decodable img) \<longrightarrow>
              conversion_data (processed_data st') = None)))"
proof (cases "os_path_isdir (disk st) d f")
  case True
  with fb show ?thesis by (simp add: file_body_def)
next
  case False
  let ?new = "new_filename_of h f (CONVERSION_FORMAT self)"
  let ?ex = "?new \<in> set ex"
  obtain e1 st1 where c: "convert_or_skip self d f ?new ?ex st = (e1, st1)"
    by (meson surj_pair)
  note cf = convert_or_skip_frame [OF c]
  then have e1: "e1 = None" by simp
  obtain e2 st2 where t: "tag_or_skip self d f ?new ?ex st1 = (e2, st2)"
    by (meson surj_pair)
  note tf = tag_or_skip_frame [OF t]
  then have e2: "e2 = None" by simp
  from fb False c t e1 e2 have res: "e = None" "st' = st2\<lparr>yielded := yielded st2 @ [processed_data st2]\<rparr>"
    by (simp_all add: file_body_def Let_def)
  have ext: "extends (PROCESSED_IMAGE_PATH self) (disk st) (disk st')"
    using cf tf res by (auto intro: extends_trans)
  have persist: "lookup_file (disk st1) (PROCESSED_IMAGE_PATH self) n \<noteq> None \<Longrightarrow>
      lookup_file (disk st') (PROCESSED_IMAGE_PATH self) n \<noteq> None" for n
    using tf res by (simp add: extends_def)
  show ?thesis
    using False res ext cf tf persist by auto
qed

lemma files_loop_frame:
  assumes "files_loop self (Some ex) d h names st = (e, st')"
  shows "e = None \<and> extends (PROCESSED_IMAGE_PATH self) (disk st) (disk st') \<and>
     length (yielded st') =
       length (yielded st) + length (filter (\<lambda>n. \<not> os_path_isdir (disk st) d n) names) \<and>
     set (yielded st) \<subseteq> set (yielded st')"
  using assms
proof (induction names arbitrary: st)
  case Nil
  then show ?case by simp
next
  case (Cons f rest)
  obtain e1 st1 where fb: "file_body self (Some ex) d h f st = (e1, st1)"
    by (meson surj_pair)
  note ff = file_body_frame [OF fb]
  then have e1: "e1 = None" by simp
  with Cons.prems fb have loop: "files_loop self (Some ex) d h rest st1 = (e, st')"
    by simp
  note ih = Cons.IH [OF loop]
  have same: "os_path_isdir (disk st1) d n = os_path_isdir (disk st) d n" for n
    using ff isdir_extends by blast
  show ?case
    using ih ff same by (auto intro: extends_trans)
qed

lemma dirs_loop_frame:
  assumes "dirs_loop self (Some ex) dirs st = (e, st')"
    and "PROCESSED_IMAGE_PATH self \<notin> set dirs"
    and "\<forall>d\<in>set dirs. disk st d \<noteq> None"
  shows "e = None \<and> extends (PROCESSED_IMAGE_PATH self) (disk st) (disk st') \<and>
     length (yielded st') = length (yielded st) + length (concat (map (plain_names (disk st)) dirs)) \<and>
     set (yielded st) \<subseteq> set (yielded st')"
  using assms
proof (induction dirs arbitrary: st)
  case Nil
  then show ?case by simp
next
  case (Cons d rest)
  from Cons.prems obtain entries where en: "disk st d = Some entries" by auto
  from Cons.prems have dne: "d \<noteq> PROCESSED_IMAGE_PATH self" by auto
  obtain e1 st1 where fl:
    "files_loop self (Some ex) d (sha1_hexdigest d) (map fst entries) st = (e1, st1)"
    by (meson surj_pair)
  note ff = files_loop_frame [OF fl]
  then have e1: "e1 = None" by simp
  with Cons.prems(1) fl en have loop: "dirs_loop self (Some ex) rest st1 = (e, st')"
    by (simp add: os_listdir_def)
  from ff have ext1: "extends (PROCESSED_IMAGE_PATH self) (disk st) (disk st1)" by simp
  have keep: "disk st1 d' = disk st d'" if "d' \<in> set rest" for d'
  proof -
    from that Cons.prems(2) have "d' \<noteq> PROCESSED_IMAGE_PATH self" by auto
    with ext1 show ?thesis by (rule extends_other)
  qed
  have listable: "\<forall>d\<in>set rest. disk st1 d \<noteq> None"
    using keep Cons.prems(3) by simp
  from Cons.prems have "PROCESSED_IMAGE_PATH self \<notin> set rest" by simp
  note ih = Cons.IH [OF loop this listable]
  have pn: "plain_names (disk st1) d' = plain_names (disk st) d'" if "d' \<in> set rest" for d'
  proof -
    from that Cons.prems(2) have "d' \<noteq> PROCESSED_IMAGE_PATH self" by auto
    with ext1 show ?thesis by (rule plain_names_extends)
  qed
  then have pn': "map (plain_names (disk st1)) rest = map (plain_names (disk st)) rest"
    by simp
  have here: "length (filter (\<lambda>n. \<not> os_path_isdir (disk st) d n) (map fst entries)) =
      length (plain_names (disk st) d)"
    by (simp add: plain_names_def get_filenames_eq en)
  from ih ext1 have ext: "extends (PROCESSED_IMAGE_PATH self) (disk st) (disk st')"
    by (blast intro: extends_trans)
  from ih ff have sub: "set (yielded st) \<subseteq> set (yielded st')" by blast
  from ih ff pn' here have len: "length (yielded st') =
      length (yielded st) + length (concat (map (plain_names (disk st)) (d # rest)))"
    by simp
  from ih ext sub len show ?case by simp
qed

lemma dirs_loop_completes:
  assumes "dirs_loop self (Some ex) dirs st = (e, st')"
    and "\<forall>d\<in>set dirs. disk st d \<noteq> None"
  shows "e = None \<and> extends (PROCESSED_IMAGE_PATH self) (disk st) (disk st')"
  using assms
proof (induction dirs arbitrary: st)
  case Nil
  then show ?case by simp
next
  case (Cons d rest)
  from Cons.prems obtain entries where en: "disk st d = Some entries" by auto
  obtain e1 st1 where fl:
    "files_loop self (Some ex) d (sha1_hexdigest d) (map fst entries) st = (e1, st1)"
    by (meson surj_pair)
  note ff = files_loop_frame [OF fl]
  then have e1: "e1 = None" and ext1: "extends (PROCESSED_IMAGE_PATH self) (disk st) (disk st1)"
    by simp_all
  with Cons.prems(1) fl en have loop: "dirs_loop self (Some ex) rest st1 = (e, st')"
    by (simp add: os_listdir_def)
  have listable: "\<forall>d\<in>set rest. disk st1 d \<noteq> None"
    using Cons.prems(2) listable_extends [OF ext1] by simp
  from Cons.IH [OF loop listable] ext1 show ?case
    by (blast intro: extends_trans)
qed

lemma extends_keeps_file:
  "extends out fs fs' \<Longrightarrow> lookup_file fs out n \<noteq> None \<Longrightarrow> lookup_file fs' out n \<noteq> None"
  by (simp add: extends_def)

lemma plain_names_iff_file: "n \<in> set (plain_names fs d) \<longleftrightarrow> lookup_file fs d n \<noteq> None"
proof (cases "fs d")
  case None
  then show ?thesis by (simp add: plain_names_def get_filenames_eq lookup_file_def)
next
  case (Some entries)
  have "n \<in> fst ` set entries \<longleftrightarrow> map_of entries n \<noteq> None"
    by (simp add: map_of_eq_None_iff)
  then show ?thesis
    using Some
    by (cases "map_of entries n")
       (auto simp: plain_names_def get_filenames_eq lookup_file_def os_path_isdir_def split: node.splits)
qed

lemma files_loop_done:
  assumes loop: "files_loop self (Some ex) d (sha1_hexdigest d) names st = (e, st')"
    and dne: "d \<noteq> PROCESSED_IMAGE_PATH self"
    and wf: "\<forall>f\<in>set names. \<not> os_path_isdir (disk st) d f \<longrightarrow> CHR ''/'' \<notin> set f"
    and pf: "plain_format (CONVERSION_FORMAT self)"
    and snap: "\<forall>n\<in>set ex. lookup_file (disk st) (PROCESSED_IMAGE_PATH self) n \<noteq> None"
    and ok: "\<forall>r\<in>set (yielded st'). conversion_data r \<noteq> None"
  shows "\<forall>f\<in>set names. \<not> os_path_isdir (disk st) d f \<longrightarrow>
           lookup_file (disk st') (PROCESSED_IMAGE_PATH self)
             (new_filename_of (sha1_hexdigest d) f (CONVERSION_FORMAT self)) \<noteq> None"
  using loop wf snap
proof (induction names arbitrary: st)
  case Nil
  then show ?case by simp
next
  case (Cons f rest)
  let ?out = "PROCESSED_IMAGE_PATH self"
  let ?new = "new_filename_of (sha1_hexdigest d) f (CONVERSION_FORMAT self)"
  obtain e1 st1 where fb: "file_body self (Some ex) d (sha1_hexdigest d) f st = (e1, st1)"
    by (meson surj_pair)
  note ff = file_body_frame [OF fb]
  then have e1: "e1 = None" and ext1: "extends ?out (disk st) (disk st1)" by simp_all
  from Cons.prems(1) fb e1 have rest: "files_loop self (Some ex) d (sha1_hexdigest d) rest st1 = (e, st')"
    by simp
  note rf = files_loop_frame [OF rest]
  then have ext2: "extends ?out (disk st1) (disk st')" by simp
  have same: "os_path_isdir (disk st1) d n = os_path_isdir (disk st) d n" for n
    using ext1 by (rule isdir_extends)
  have wf1: "\<forall>f\<in>set rest. \<not> os_path_isdir (disk st1) d f \<longrightarrow> CHR ''/'' \<notin> set f"
    using Cons.prems(2) same by simp
  have snap1: "\<forall>n\<in>set ex. lookup_file (disk st1) ?out n \<noteq> None"
    using Cons.prems(3) ext1 extends_keeps_file by blast
  note ih = Cons.IH [OF rest wf1 snap1]
  have head: "lookup_file (disk st') ?out ?new \<noteq> None" if nd: "\<not> os_path_isdir (disk st) d f"
  proof (cases "?new \<in> set ex")
    case True
    with Cons.prems(3) have "lookup_file (disk st) ?out ?new \<noteq> None" by blast
    with ext1 have "lookup_file (disk st1) ?out ?new \<noteq> None" by (rule extends_keeps_file)
    with ext2 show ?thesis by (rule extends_keeps_file)
  next
    case False
    from nd ff have "processed_data st1 \<in> set (yielded st1)" by simp
    with rf have "processed_data st1 \<in> set (yielded st')" by blast
    with ok have cd: "conversion_data (processed_data st1) \<noteq> None" by blast
    from nd Cons.prems(2) have "CHR ''/'' \<notin> set f" by simp
    from outfile_is_new_filename [OF this pf, of d]
    have same_name: "fst (splitext ?new) @ ''.'' @ CONVERSION_FORMAT self = ?new" .
    from ff nd False cd have "lookup_file (disk st1) ?out
        (fst (splitext ?new) @ ''.'' @ CONVERSION_FORMAT self) \<noteq> None"
      by blast
    with same_name have "lookup_file (disk st1) ?out ?new \<noteq> None"
      by simp
    with ext2 show ?thesis by (rule extends_keeps_file)
  qed
  show ?case
    using head ih same by simp
qed

lemma dirs_loop_done:
  assumes loop: "dirs_loop self (Some ex) dirs st = (e, st')"
    and out: "PROCESSED_IMAGE_PATH self \<notin> set dirs"
    and listable: "\<forall>d\<in>set dirs. disk st d \<noteq> None"
    and wf: "\<forall>d\<in>set dirs. \<forall>f\<in>set (plain_names (disk st) d). CHR ''/'' \<notin> set f"
    and pf: "plain_format (CONVERSION_FORMAT self)"
    and snap: "\<forall>n\<in>set ex. lookup_file (disk st) (PROCESSED_IMAGE_PATH self) n \<noteq> None"
    and ok: "\<forall>r\<in>set (yielded st'). conversion_data r \<noteq> None"
  shows "\<forall>d\<in>set dirs. \<forall>f\<in>set (plain_names (disk st) d).
           lookup_file (disk st') (PROCESSED_IMAGE_PATH self)
             (new_filename_of (sha1_hexdigest d) f (CONVERSION_FORMAT self)) \<noteq> None"
  using loop out listable wf snap
proof (induction dirs arbitrary: st)
  case Nil
  then show ?case by simp
next
  case (Cons d rest)
  let ?out = "PROCESSED_IMAGE_PATH self"
  from Cons.prems obtain entries where en: "disk st d = Some entries" by auto
  from Cons.prems have dne: "d \<noteq> ?out" and out_rest: "?out \<notin> set rest" by auto
  obtain e1 st1 where fl:
    "files_loop self (Some ex) d (sha1_hexdigest d) (map fst entries) st = (e1, st1)"
    by (meson surj_pair)
  note ff = files_loop_frame [OF fl]
  then have e1: "e1 = None" and ext1: "extends ?out (disk st) (disk st1)"
    by simp_all
  from Cons.prems(1) fl en e1 have rest: "dirs_loop self (Some ex) rest st1 = (e, st')"
    by (simp add: os_listdir_def)
  have keep: "disk st1 d' = disk st d'" if "d' \<in> set rest" for d'
  proof -
    from that out_rest have "d' \<noteq> ?out" by auto
    with ext1 show ?thesis by (rule extends_other)
  qed
  have pn: "plain_names (disk st1) d' = plain_names (disk st) d'" if "d' \<in> set rest" for d'
  proof -
    from that out_rest have "d' \<noteq> ?out" by auto
    with ext1 show ?thesis by (rule plain_names_extends)
  qed
  have listable1: "\<forall>d\<in>set rest. disk st1 d \<noteq> None"
    using keep Cons.prems(3) by simp
  note rf = dirs_loop_frame [OF rest out_rest listable1]
  then have ext2: "extends ?out (disk st1) (disk st')" by simp
  have wf1: "\<forall>d\<in>set rest. \<forall>f\<in>set (plain_names (disk st1) d). CHR ''/'' \<notin> set f"
    using Cons.prems(4) pn by simp
  have snap1: "\<forall>n\<in>set ex. lookup_file (disk st1) ?out n \<noteq> None"
    using Cons.prems(5) ext1 extends_keeps_file by blast
  note ih = Cons.IH [OF rest out_rest listable1 wf1 snap1]
  have ok1: "\<forall>r\<in>set (yielded st1). conversion_data r \<noteq> None"
    using ok rf by blast
  have wfd: "\<forall>f\<in>set (map fst entries). \<not> os_path_isdir (disk st) d f \<longrightarrow> CHR ''/'' \<notin> set f"
    using Cons.prems(4) en by (simp add: plain_names_def get_filenames_eq)
  note here = files_loop_done [OF fl dne wfd pf Cons.prems(5) ok1]
  have head: "lookup_file (disk st') ?out
      (new_filename_of (sha1_hexdigest d) f (CONVERSION_FORMAT self)) \<noteq> None"
    if "f \<in> set (plain_names (disk st) d)" for f
  proof -
    from that en have "f \<in> set (map fst entries)" "\<not> os_path_isdir (disk st) d f"
      by (simp_all add: plain_names_def get_filenames_eq)
    with here have "lookup_file (disk st1) ?out
      (new_filename_of (sha1_hexdigest d) f (CONVERSION_FORMAT self)) \<noteq> None" by blast
    with ext2 show ?thesis by (rule extends_keeps_file)
  qed
  show ?case
    using head ih pn by simp
qed

lemma tag_data_pass_through [simp]: "tag_data (pass_through self t d f) = t"
  by (simp add: pass_through_def)

lemma files_loop_skip:
  assumes nr: "\<not> retag self"
    and all: "\<forall>f\<in>set names. \<not> os_path_isdir (disk st) d f \<longrightarrow>
          new_filename_of (sha1_hexdigest d) f (CONVERSION_FORMAT self) \<in> set ex"
  shows "\<exists>st'. files_loop self (Some ex) d (sha1_hexdigest d) names st = (None, st') \<and>
      disk st' = disk st \<and> calls st' = calls st \<and>
      tag_data (processed_data st') = tag_data (processed_data st) \<and>
      yielded st' = yielded st @
        map (pass_through self (tag_data (processed_data st)) d)
          (filter (\<lambda>n. \<not> os_path_isdir (disk st) d n) names)"
  using all
proof (induction names arbitrary: st)
  case Nil
  then show ?case by simp
next
  case (Cons f rest)
  show ?case
  proof (cases "os_path_isdir (disk st) d f")
    case True
    then have "file_body self (Some ex) d (sha1_hexdigest d) f st = (None, st)"
      by (simp add: file_body_def)
    with True Cons.IH [of st] Cons.prems show ?thesis by simp
  next
    case False
    let ?new = "new_filename_of (sha1_hexdigest d) f (CONVERSION_FORMAT self)"
    let ?pd = "(processed_data st)\<lparr>conversion_data :=
        Some \<lparr>orig_path = d, processed_path = PROCESSED_IMAGE_PATH self, filename = ?new\<rparr>\<rparr>"
    let ?st1 = "st\<lparr>processed_data := ?pd, yielded := yielded st @ [?pd]\<rparr>"
    from False Cons.prems have mem: "?new \<in> set ex" by simp
    have fb: "file_body self (Some ex) d (sha1_hexdigest d) f st = (None, ?st1)"
      by (rule file_body_skip [OF nr mem False])
    have pd: "?pd = pass_through self (tag_data (processed_data st)) d f"
      by (simp add: pass_through_def)
    from Cons.prems have "\<forall>f\<in>set rest. \<not> os_path_isdir (disk ?st1) d f \<longrightarrow>
          new_filename_of (sha1_hexdigest d) f (CONVERSION_FORMAT self) \<in> set ex"
      by simp
    from Cons.IH [OF this] fb False pd show ?thesis by auto
  qed
qed

lemma dirs_loop_skip:
  assumes nr: "\<not> retag self"
    and listable: "\<forall>d\<in>set dirs. disk st d \<noteq> None"
    and all: "\<forall>d\<in>set dirs. \<forall>f\<in>set (plain_names (disk st) d).
          new_filename_of (sha1_hexdigest d) f (CONVERSION_FORMAT self) \<in> set ex"
  shows "\<exists>st'. dirs_loop self (Some ex) dirs st = (None, st') \<and>
      disk st' = disk st \<and> calls st' = calls st \<and>
      tag_data (processed_data st') = tag_data (processed_data st) \<and>
      yielded st' = yielded st @
        concat (map (\<lambda>d. map (pass_through self (tag_data (processed_data st)) d)
                            (plain_names (disk st) d)) dirs)"
  using listable all
proof (induction dirs arbitrary: st)
  case Nil
  then show ?case by simp
next
  case (Cons d rest)
  from Cons.prems obtain entries where en: "disk st d = Some entries" by auto
  have pn: "plain_names (disk st) d = filter (\<lambda>n. \<not> os_path_isdir (disk st) d n) (map fst entries)"
    by (simp add: plain_names_def get_filenames_eq en)
  with Cons.prems(2) have "\<forall>f\<in>set (map fst entries). \<not> os_path_isdir (disk st) d f \<longrightarrow>
          new_filename_of (sha1_hexdigest d) f (CONVERSION_FORMAT self) \<in> set ex"
    by simp
  from files_loop_skip [OF nr this] obtain st1 where
    fl: "files_loop self (Some ex) d (sha1_hexdigest d) (map fst entries) st = (None, st1)"
    and d1: "disk st1 = disk st" and c1: "calls st1 = calls st"
    and t1: "tag_data (processed_data st1) = tag_data (processed_data st)"
    and y1: "yielded st1 = yielded st @
        map (pass_through self (tag_data (processed_data st)) d) (plain_names (disk st) d)"
    using pn by auto
  from Cons.prems d1 have l1: "\<forall>d\<in>set rest. disk st1 d \<noteq> None"
    and a1: "\<forall>d\<in>set rest. \<forall>f\<in>set (plain_names (disk st1) d).
          new_filename_of (sha1_hexdigest d) f (CONVERSION_FORMAT self) \<in> set ex"
    by simp_all
  from Cons.IH [OF l1 a1] obtain st' where
    "dirs_loop self (Some ex) rest st1 = (None, st')" "disk st' = disk st1" "calls st' = calls st1"
    "tag_data (processed_data st') = tag_data (processed_data st1)"
    "yielded st' = yielded st1 @
        concat (map (\<lambda>d. map (pass_through self (tag_data (processed_data st1)) d)
                            (plain_names (disk st1) d)) rest)"
    by blast
  with fl d1 c1 t1 y1 en show ?case
    by (simp add: os_listdir_def)
qed

section \<open>Runs on the example files\<close>

lemmas run_eval = generate_processed_copies_def get_filenames_eq initial_state_def
  os_listdir_def os_path_isdir_def file_body_def new_filename_of_def convert_or_skip_def
  tag_or_skip_def convert_format_eq read_iptc_tags_eq write_iptc_tags_eq Image_open_save_def
  ImageMetadata_read_def ImageMetadata_setitem_def lookup_file_def store_file_def pil_encode_def
  splitext_def rfind_def splitext_scan.simps PROVENANCE_def Let_def example_defs
  sha1_photos example_self_def photos_fs_def

lemmas state_defs = converted_name_def conv_def no_tags_def moon_record_def photos_fs_after_def
  first_run_state_def second_run_state_def retag_run_state_def good_fs_def good_run_state_def

lemma example_first_run:
  "generate_processed_copies example_self photos_fs = Inr (None, first_run_state)"
  by (simp add: run_eval state_defs)

lemma example_second_run:
  "generate_processed_copies example_self photos_fs_after = Inr (None, second_run_state)"
  by (simp add: run_eval state_defs)

lemma example_retag_run:
  "generate_processed_copies (example_self\<lparr>retag := True\<rparr>) photos_fs_after =
     Inr (None, retag_run_state)"
  by (simp add: run_eval state_defs)

lemma example_missing_directory:
  "generate_processed_copies (example_self\<lparr>ORIGINAL_IMAGE_PATHS := [''/missing'', ''/photos'']\<rparr>)
     photos_fs = Inr (Some OSError, initial_state photos_fs)"
  by (simp add: run_eval state_defs)

lemma example_missing_output:
  "generate_processed_copies (example_self\<lparr>PROCESSED_IMAGE_PATH := ''/nowhere''\<rparr>) photos_fs =
     Inr (Some TypeError, initial_state photos_fs)"
  by (simp add: run_eval state_defs)

lemma sha1_processed:
  "sha1_hexdigest ''/processed'' = ''ef4991bf39ebda58a8c9e496544574001917207a''"
  by (simp add: sha1_eval)

lemmas shared_defs = shared_self_def shared_name_def shared_name2_def shared_conv_def
  shared_first_state_def shared_second_state_def out_fs_def no_tags_def

lemma example_shared_first_run:
  "generate_processed_copies shared_self out_fs = Inr (None, shared_first_state)"
  by (simp add: run_eval sha1_processed shared_defs)

lemma example_shared_second_run:
  "generate_processed_copies shared_self (disk shared_first_state) = Inr (None, shared_second_state)"
  by (simp add: run_eval sha1_processed shared_defs)

lemma example_good_run:
  "generate_processed_copies example_self good_fs = Inr (None, good_run_state)"
  by (simp add: run_eval state_defs)

text \<open>
  A conversion that fails in the encoder: the source can be loaded but not encoded. A
  converted file of that name that was there before is left empty; without one the files
  are as before.
\<close>

lemma example_encoder_failure:
  "convert_format
     [''/photos'' \<mapsto> [(''p.png'', File unencodable_image)],
      ''/processed'' \<mapsto> [(''h_p.jpg'', File bare_image)]]
     ''p.png'' ''h_p.jpg'' ''/photos'' ''/processed'' ''jpg'' =
   Inr (None,
     [''/photos'' \<mapsto> [(''p.png'', File unencodable_image)],
      ''/processed'' \<mapsto> [(''h_p.jpg'', File empty_file)]]) \<and>
   convert_format
     [''/photos'' \<mapsto> [(''p.png'', File unencodable_image)], ''/processed'' \<mapsto> []]
     ''p.png'' ''h_p.jpg'' ''/photos'' ''/processed'' ''jpg'' =
   Inr (None,
     [''/photos'' \<mapsto> [(''p.png'', File unencodable_image)], ''/processed'' \<mapsto> []])"
  by (simp add: convert_format_eq Image_open_save_def lookup_file_def os_path_isdir_def
        store_file_def splitext_def rfind_def splitext_scan.simps unencodable_image_def)

section \<open>Failures during a run\<close>

lemma files_loop_no_listing:
  "files_loop self None d h names st = (e, st') \<Longrightarrow> st' = st"
proof (induction names arbitrary: st)
  case Nil
  then show ?case by simp
next
  case (Cons f rest)
  show ?case
  proof (cases "os_path_isdir (disk st) d f")
    case True
    with Cons.prems have "files_loop self None d h rest st = (e, st')"
      by (simp add: file_body_def)
    then show ?thesis by (rule Cons.IH)
  next
    case False
    with Cons.prems show ?thesis by (simp add: file_body_def Let_def)
  qed
qed

lemma dirs_loop_no_listing:
  "dirs_loop self None dirs st = (e, st') \<Longrightarrow> st' = st"
proof (induction dirs arbitrary: st)
  case Nil
  then show ?case by simp
next
  case (Cons d rest)
  show ?case
  proof (cases "os_listdir (disk st) d")
    case (Inl x)
    with Cons.prems show ?thesis by simp
  next
    case (Inr names)
    obtain e1 st1 where fl: "files_loop self None d (sha1_hexdigest d) names st = (e1, st1)"
      by (meson surj_pair)
    then have st1: "st1 = st" by (rule files_loop_no_listing)
    show ?thesis
    proof (cases e1)
      case None
      with Cons.prems Inr fl st1 have "dirs_loop self None rest st = (e, st')" by simp
      then show ?thesis by (rule Cons.IH)
    next
      case (Some x)
      with Cons.prems Inr fl st1 show ?thesis by simp
    qed
  qed
qed

text \<open>
  Claim C1, as amended. No exception leaves the generator. With the listing of the output
  directory at hand, the loop body never raises, yields exactly one record for every entry
  that is not a directory, and stores \<^verbatim>\<open>False\<close> as conversion data for a file that is not
  converted yet and that PIL cannot convert; the loop over a listing goes on to its end,
  with one record per entry that is not a directory. When the output directory and all
  source directories can be listed, the run ends normally, nothing being caught; if
  moreover the output directory is not itself a source directory, it has yielded one
  record per source file. A source directory that cannot be listed is not skipped:
  \<^verbatim>\<open>os.listdir\<close> raises, the exception leaves both loops and is caught by the outer handler,
  which ends the run with the remaining directories unprocessed. When the output directory
  cannot be listed, nothing is yielded, converted or tagged.
\<close>

theorem failures_never_raise:
  "(\<exists>caught final. generate_processed_copies self fs = Inr (caught, final)) \<and>
   (file_body self (Some existing) d h f st = (e, st') \<longrightarrow>
      e = None \<and>
      (\<not> os_path_isdir (disk st) d f \<longrightarrow>
         yielded st' = yielded st @ [processed_data st'] \<and>
         (new_filename_of h f (CONVERSION_FORMAT self) \<notin> set existing \<and>
          (\<forall>img. lookup_file (disk st) d f = Some img \<longrightarrow> \<not> decodable img) \<longrightarrow>
            conversion_data (processed_data st') = None))) \<and>
   (files_loop self (Some existing) d h names st = (e2, st2) \<longrightarrow>
      e2 = None \<and>
      length (yielded st2) =
        length (yielded st) + length (filter (\<lambda>n. \<not> os_path_isdir (disk st) d n) names)) \<and>
   (fs (PROCESSED_IMAGE_PATH self) \<noteq> None \<and>
    (\<forall>p\<in>set (ORIGINAL_IMAGE_PATHS self). fs p \<noteq> None) \<longrightarrow>
      (\<exists>final. generate_processed_copies self fs = Inr (None, final) \<and>
         (PROCESSED_IMAGE_PATH self \<notin> set (ORIGINAL_IMAGE_PATHS self) \<longrightarrow>
            length (yielded final) =
              length (concat (map (plain_names fs) (ORIGINAL_IMAGE_PATHS self)))))) \<and>
   (disk st d = None \<longrightarrow> dirs_loop self snapshot (d # rest) st = (Some OSError, st)) \<and>
   (fs (PROCESSED_IMAGE_PATH self) = None \<longrightarrow>
      (\<exists>caught final. generate_processed_copies self fs = Inr (caught, final) \<and>
         yielded final = [] \<and> calls final = [] \<and> disk final = fs))"
proof -
  let ?out = "PROCESSED_IMAGE_PATH self"
  let ?dirs = "ORIGINAL_IMAGE_PATHS self"
  have a: "\<exists>caught final. generate_processed_copies self fs = Inr (caught, final)"
    by (simp add: generate_processed_copies_def get_filenames_eq)
  have b: "e = None \<and>
      (\<not> os_path_isdir (disk st) d f \<longrightarrow>
         yielded st' = yielded st @ [processed_data st'] \<and>
         (new_filename_of h f (CONVERSION_FORMAT self) \<notin> set existing \<and>
          (\<forall>img. lookup_file (disk st) d f = Some img \<longrightarrow> \<not> decodable img) \<longrightarrow>
            conversion_data (processed_data st') = None))"
    if "file_body self (Some existing) d h f st = (e, st')"
    using file_body_frame [OF that] by blast
  have b': "e2 = None \<and>
      length (yielded st2) =
        length (yielded st) + length (filter (\<lambda>n. \<not> os_path_isdir (disk st) d n) names)"
    if "files_loop self (Some existing) d h names st = (e2, st2)"
    using files_loop_frame [OF that] by blast
  have c: "\<exists>final. generate_processed_copies self fs = Inr (None, final) \<and>
         (?out \<notin> set ?dirs \<longrightarrow>
            length (yielded final) = length (concat (map (plain_names fs) ?dirs)))"
    if out: "fs ?out \<noteq> None" and listable: "\<forall>p\<in>set ?dirs. fs p \<noteq> None"
  proof -
    from out have gf: "get_filenames fs ?out = Inr (Some (plain_names fs ?out))"
      by (auto simp: plain_names_def get_filenames_eq)
    obtain e1 st1 where loop:
      "dirs_loop self (Some (plain_names fs ?out)) ?dirs (initial_state fs) = (e1, st1)"
      by (meson surj_pair)
    have l0: "\<forall>p\<in>set ?dirs. disk (initial_state fs) p \<noteq> None"
      using listable by (simp add: initial_state_def)
    from dirs_loop_completes [OF loop l0] have e1: "e1 = None" by simp
    have "length (yielded st1) = length (concat (map (plain_names fs) ?dirs))"
      if sep: "?out \<notin> set ?dirs"
      using dirs_loop_frame [OF loop sep l0] by (simp add: initial_state_def)
    with e1 gf loop show ?thesis
      by (simp add: generate_processed_copies_def)
  qed
  have d: "dirs_loop self snapshot (d # rest) st = (Some OSError, st)" if "disk st d = None"
    using that by (simp add: os_listdir_def)
  have e: "\<exists>caught final. generate_processed_copies self fs = Inr (caught, final) \<and>
         yielded final = [] \<and> calls final = [] \<and> disk final = fs"
    if "fs ?out = None"
  proof -
    from that have gf: "get_filenames fs ?out = Inr None"
      by (simp add: get_filenames_eq)
    obtain e1 st1 where loop: "dirs_loop self None ?dirs (initial_state fs) = (e1, st1)"
      by (meson surj_pair)
    from dirs_loop_no_listing [OF loop] gf loop show ?thesis
      by (simp add: generate_processed_copies_def initial_state_def)
  qed
  from a b b' c d e show ?thesis by blast
qed

theorem failures_never_raise_witness:
  "(\<exists>final. generate_processed_copies example_self photos_fs = Inr (None, final) \<and>
      length (yielded final) = 3 \<and> conversion_data (yielded final ! 1) = None) \<and>
   (\<exists>st'. file_body example_self (Some []) ''/photos'' (sha1_hexdigest ''/photos'') ''b.tif''
            (initial_state photos_fs) = (None, st') \<and>
          yielded st' = [processed_data st'] \<and>
          conversion_data (processed_data st') = None) \<and>
   (\<exists>st2. files_loop example_self (Some []) ''/photos'' (sha1_hexdigest ''/photos'')
            [''a.tif'', ''b.tif'', ''c.tif''] (initial_state photos_fs) = (None, st2) \<and>
          length (yielded st2) = 3) \<and>
   dirs_loop example_self (Some []) [''/missing'', ''/photos''] (initial_state photos_fs) =
     (Some OSError, initial_state photos_fs) \<and>
   (\<exists>caught final.
      generate_processed_copies (example_self\<lparr>PROCESSED_IMAGE_PATH := ''/nowhere''\<rparr>) photos_fs =
        Inr (caught, final) \<and>
      yielded final = [] \<and> calls final = [] \<and> disk final = photos_fs)"
proof -
  have h: "photos_fs (PROCESSED_IMAGE_PATH example_self) \<noteq> None \<and>
    PROCESSED_IMAGE_PATH example_self \<notin> set (ORIGINAL_IMAGE_PATHS example_self) \<and>
    (\<forall>p\<in>set (ORIGINAL_IMAGE_PATHS example_self). photos_fs p \<noteq> None)"
    by (simp add: example_self_def photos_fs_def)
  have n: "length (concat (map (plain_names photos_fs) (ORIGINAL_IMAGE_PATHS example_self))) = 3"
    by (simp add: example_self_def photos_fs_def plain_names_def get_filenames_eq os_path_isdir_def)
  have m: "disk (initial_state photos_fs) ''/missing'' = None"
    by (simp add: initial_state_def photos_fs_def)
  have nd: "\<not> os_path_isdir (disk (initial_state photos_fs)) ''/photos'' ''b.tif''"
    by (simp add: initial_state_def photos_fs_def os_path_isdir_def)
  have nds: "filter (\<lambda>n. \<not> os_path_isdir (disk (initial_state photos_fs)) ''/photos'' n)
      [''a.tif'', ''b.tif'', ''c.tif''] = [''a.tif'', ''b.tif'', ''c.tif'']"
    by (simp add: initial_state_def photos_fs_def os_path_isdir_def)
  have bad: "new_filename_of (sha1_hexdigest ''/photos'') ''b.tif'' (CONVERSION_FORMAT example_self)
      \<notin> set [] \<and>
    (\<forall>img. lookup_file (disk (initial_state photos_fs)) ''/photos'' ''b.tif'' = Some img \<longrightarrow>
       \<not> decodable img)"
    by (simp add: initial_state_def photos_fs_def lookup_file_def corrupt_image_def)
  obtain e st' where fb:
    "file_body example_self (Some []) ''/photos'' (sha1_hexdigest ''/photos'') ''b.tif''
       (initial_state photos_fs) = (e, st')"
    by (meson surj_pair)
  obtain e2 st2 where fl:
    "files_loop example_self (Some []) ''/photos'' (sha1_hexdigest ''/photos'')
       [''a.tif'', ''b.tif'', ''c.tif''] (initial_state photos_fs) = (e2, st2)"
    by (meson surj_pair)
  have y0: "yielded (initial_state photos_fs) = []"
    by (simp add: initial_state_def)
  have second: "generate_processed_copies example_self photos_fs = Inr (None, first_run_state)"
    "conversion_data (yielded first_run_state ! 1) = None"
    by (simp_all add: example_first_run) (simp add: first_run_state_def)
  have nowhere: "photos_fs (PROCESSED_IMAGE_PATH (example_self\<lparr>PROCESSED_IMAGE_PATH := ''/nowhere''\<rparr>)) = None"
    by (simp add: photos_fs_def)
  from failures_never_raise [where self = example_self and fs = photos_fs and existing = "[]"
      and d = "''/photos''" and h = "sha1_hexdigest ''/photos''" and f = "''b.tif''"
      and st = "initial_state photos_fs" and e = e and st' = st'
      and names = "[''a.tif'', ''b.tif'', ''c.tif'']" and ?e2.0 = e2 and ?st2.0 = st2]
    h n nd nds bad fb fl y0 second
  have one: "(\<exists>final. generate_processed_copies example_self photos_fs = Inr (None, final) \<and>
      length (yielded final) = 3 \<and> conversion_data (yielded final ! 1) = None) \<and>
   (\<exists>st'. file_body example_self (Some []) ''/photos'' (sha1_hexdigest ''/photos'') ''b.tif''
            (initial_state photos_fs) = (None, st') \<and>
          yielded st' = [processed_data st'] \<and>
          conversion_data (processed_data st') = None) \<and>
   (\<exists>st2. files_loop example_self (Some []) ''/photos'' (sha1_hexdigest ''/photos'')
            [''a.tif'', ''b.tif'', ''c.tif''] (initial_state photos_fs) = (None, st2) \<and>
          length (yielded st2) = 3)"
    by simp
  from failures_never_raise [where self = example_self and d = "''/missing''"
      and st = "initial_state photos_fs" and snapshot = "Some []" and rest = "[''/photos'']"] m
  have two: "dirs_loop example_self (Some []) [''/missing'', ''/photos''] (initial_state photos_fs) =
     (Some OSError, initial_state photos_fs)"
    by blast
  from failures_never_raise [of "example_self\<lparr>PROCESSED_IMAGE_PATH := ''/nowhere''\<rparr>" photos_fs] nowhere
  have three: "\<exists>caught final.
      generate_processed_copies (example_self\<lparr>PROCESSED_IMAGE_PATH := ''/nowhere''\<rparr>) photos_fs =
        Inr (caught, final) \<and>
      yielded final = [] \<and> calls final = [] \<and> disk final = photos_fs"
    by blast
  from one two three show ?thesis by blast
qed

text \<open>
  The claim as stated fails: with a missing directory before \<^verbatim>\<open>/photos\<close>, the run ends with
  the \<^verbatim>\<open>OSError\<close> caught and nothing yielded, although \<^verbatim>\<open>/photos\<close> holds three files.
  With a missing output directory the run over \<^verbatim>\<open>/photos\<close> ends at the first file, with the
  \<^verbatim>\<open>TypeError\<close> of the membership test caught and nothing yielded.
\<close>

theorem unlistable_directory_ends_run:
  "generate_processed_copies (example_self\<lparr>ORIGINAL_IMAGE_PATHS := [''/missing'', ''/photos'']\<rparr>)
     photos_fs = Inr (Some OSError, initial_state photos_fs) \<and>
   yielded (initial_state photos_fs) = [] \<and>
   plain_names photos_fs ''/photos'' = [''a.tif'', ''b.tif'', ''c.tif''] \<and>
   generate_processed_copies (example_self\<lparr>PROCESSED_IMAGE_PATH := ''/nowhere''\<rparr>) photos_fs =
     Inr (Some TypeError, initial_state photos_fs)"
  by (simp add: example_missing_directory example_missing_output)
     (simp add: initial_state_def plain_names_def get_filenames_eq photos_fs_def os_path_isdir_def)

section \<open>A second run\<close>

text \<open>
  Claim C2, as amended. Let the source directories and the output directory be listable,
  the output directory not be a source directory, and the first run report a conversion
  record for every file (no conversion failed). Then a second run with \<^verbatim>\<open>retag=False\<close> over
  the files the first run left ends normally, makes no call of \<^verbatim>\<open>convert_format\<close>,
  \<^verbatim>\<open>read_iptc_tags\<close> or \<^verbatim>\<open>write_iptc_tags\<close>, leaves every file as it is and yields one
  pass-through record per source file. The format is one without dot and slash, as every
  format that \<^verbatim>\<open>__init__\<close> stores is, and the names of the source files contain no slash, as
  the entries of a directory never do.
\<close>

theorem second_run_converts_nothing:
  assumes pf: "plain_format (CONVERSION_FORMAT self)"
    and out: "PROCESSED_IMAGE_PATH self \<notin> set (ORIGINAL_IMAGE_PATHS self)"
    and listable: "\<forall>d\<in>set (ORIGINAL_IMAGE_PATHS self). fs d \<noteq> None"
    and outdir: "fs (PROCESSED_IMAGE_PATH self) \<noteq> None"
    and wf: "\<forall>d\<in>set (ORIGINAL_IMAGE_PATHS self). \<forall>f\<in>set (plain_names fs d). CHR ''/'' \<notin> set f"
    and first: "generate_processed_copies self fs = Inr (e1, st1)"
    and ok: "\<forall>r\<in>set (yielded st1). conversion_data r \<noteq> None"
  shows "e1 = None \<and>
     (\<exists>st2. generate_processed_copies (self\<lparr>retag := False\<rparr>) (disk st1) = Inr (None, st2) \<and>
        disk st2 = disk st1 \<and> calls st2 = [] \<and>
        yielded st2 =
          concat (map (\<lambda>d. map (pass_through self \<lparr>iptc_key = [], tags = []\<rparr> d) (plain_names fs d))
                    (ORIGINAL_IMAGE_PATHS self)))"
proof -
  let ?out = "PROCESSED_IMAGE_PATH self"
  let ?dirs = "ORIGINAL_IMAGE_PATHS self"
  let ?ex = "plain_names fs ?out"
  let ?self2 = "self\<lparr>retag := False\<rparr>"
  from outdir obtain entries where en: "fs ?out = Some entries" by auto
  then have gf: "get_filenames fs ?out = Inr (Some ?ex)"
    by (simp add: plain_names_def get_filenames_eq)
  with first have loop: "dirs_loop self (Some ?ex) ?dirs (initial_state fs) = (e1, st1)"
    by (simp add: generate_processed_copies_def)
  have l0: "\<forall>d\<in>set ?dirs. disk (initial_state fs) d \<noteq> None"
    using listable by (simp add: initial_state_def)
  have wf0: "\<forall>d\<in>set ?dirs. \<forall>f\<in>set (plain_names (disk (initial_state fs)) d). CHR ''/'' \<notin> set f"
    using wf by (simp add: initial_state_def)
  have snap: "\<forall>n\<in>set ?ex. lookup_file (disk (initial_state fs)) ?out n \<noteq> None"
    by (simp add: initial_state_def plain_names_iff_file)
  note fr = dirs_loop_frame [OF loop out l0]
  then have e1: "e1 = None" and ext: "extends ?out fs (disk st1)"
    by (simp_all add: initial_state_def)
  from dirs_loop_done [OF loop out l0 wf0 pf snap ok]
  have conv: "\<forall>d\<in>set ?dirs. \<forall>f\<in>set (plain_names fs d).
      lookup_file (disk st1) ?out (new_filename_of (sha1_hexdigest d) f (CONVERSION_FORMAT self)) \<noteq> None"
    by (simp add: initial_state_def)
  have same: "plain_names (disk st1) d = plain_names fs d" "disk st1 d = fs d" if "d \<in> set ?dirs" for d
  proof -
    from that out have "d \<noteq> ?out" by auto
    with ext show "plain_names (disk st1) d = plain_names fs d" "disk st1 d = fs d"
      by (rule plain_names_extends, rule extends_other)
  qed
  from ext en obtain entries1 where en1: "disk st1 ?out = Some entries1"
    by (auto simp: extends_def)
  let ?ex2 = "plain_names (disk st1) ?out"
  from en1 have gf2: "get_filenames (disk st1) (PROCESSED_IMAGE_PATH ?self2) = Inr (Some ?ex2)"
    by (simp add: plain_names_def get_filenames_eq)
  have nr: "\<not> retag ?self2" by simp
  have l2: "\<forall>d\<in>set ?dirs. disk (initial_state (disk st1)) d \<noteq> None"
    using listable same by (simp add: initial_state_def)
  have a2: "\<forall>d\<in>set ?dirs. \<forall>f\<in>set (plain_names (disk (initial_state (disk st1))) d).
          new_filename_of (sha1_hexdigest d) f (CONVERSION_FORMAT ?self2) \<in> set ?ex2"
    using conv same by (simp add: initial_state_def plain_names_iff_file)
  from dirs_loop_skip [OF nr l2 a2] obtain st2 where
    "dirs_loop ?self2 (Some ?ex2) ?dirs (initial_state (disk st1)) = (None, st2)"
    "disk st2 = disk st1" "calls st2 = []"
    "yielded st2 = concat (map (\<lambda>d. map (pass_through ?self2 \<lparr>iptc_key = [], tags = []\<rparr> d)
                            (plain_names (disk st1) d)) ?dirs)"
    by (auto simp: initial_state_def)
  moreover have "concat (map (\<lambda>d. map (pass_through ?self2 \<lparr>iptc_key = [], tags = []\<rparr> d)
                            (plain_names (disk st1) d)) ?dirs) =
      concat (map (\<lambda>d. map (pass_through self \<lparr>iptc_key = [], tags = []\<rparr> d) (plain_names fs d)) ?dirs)"
    using same by (intro arg_cong [where f = concat] map_cong) (auto simp: pass_through_def)
  ultimately show ?thesis
    using e1 gf2 by (auto simp: generate_processed_copies_def)
qed

theorem second_run_converts_nothing_witness:
  "\<exists>st2. generate_processed_copies (example_self\<lparr>retag := False\<rparr>) (disk good_run_state) =
           Inr (None, st2) \<and>
         disk st2 = disk good_run_state \<and> calls st2 = [] \<and>
         yielded st2 =
           [\<lparr>conversion_data = conv ''a'', tag_data = no_tags\<rparr>,
            \<lparr>conversion_data = conv ''c'', tag_data = no_tags\<rparr>]"
proof -
  have pf: "plain_format (CONVERSION_FORMAT example_self)"
    by (simp add: example_self_def plain_format_def)
  have out: "PROCESSED_IMAGE_PATH example_self \<notin> set (ORIGINAL_IMAGE_PATHS example_self)"
    by (simp add: example_self_def)
  have listable: "\<forall>d\<in>set (ORIGINAL_IMAGE_PATHS example_self). good_fs d \<noteq> None"
    by (simp add: example_self_def good_fs_def)
  have outdir: "good_fs (PROCESSED_IMAGE_PATH example_self) \<noteq> None"
    by (simp add: example_self_def good_fs_def)
  have names: "plain_names good_fs ''/photos'' = [''a.tif'', ''c.tif'']"
    by (simp add: plain_names_def get_filenames_eq good_fs_def os_path_isdir_def)
  have wf: "\<forall>d\<in>set (ORIGINAL_IMAGE_PATHS example_self). \<forall>f\<in>set (plain_names good_fs d). CHR ''/'' \<notin> set f"
    by (simp add: example_self_def names)
  have ok: "\<forall>r\<in>set (yielded good_run_state). conversion_data r \<noteq> None"
    by (simp add: good_run_state_def conv_def)
  have new: "new_filename_of (sha1_hexdigest ''/photos'') ''a.tif'' ''jpg'' = converted_name ''a''"
    "new_filename_of (sha1_hexdigest ''/photos'') ''c.tif'' ''jpg'' = converted_name ''c''"
    by (simp_all add: new_filename_of_def sha1_photos splitext_def rfind_def splitext_scan.simps
          converted_name_def)
  show ?thesis
    using second_run_converts_nothing [OF pf out listable outdir wf example_good_run ok] new
    by (simp add: example_self_def names pass_through_def conv_def no_tags_def)
qed

text \<open>
  The claim as stated fails when a conversion of the first run failed: the converted name of
  the corrupt file is not in the listing, and the second run calls \<^verbatim>\<open>convert_format\<close> and
  \<^verbatim>\<open>read_iptc_tags\<close> for it again. It fails when the output directory is a source
  directory: the file that the first run has converted is a source file of the second run,
  which converts it in turn. And it fails when a directory cannot be listed: with a missing
  source directory before \<^verbatim>\<open>/photos\<close>, or a missing output directory, each run ends with
  no result for the three files of \<^verbatim>\<open>/photos\<close>.
\<close>

theorem second_run_retries_failed_conversion:
  "generate_processed_copies example_self photos_fs = Inr (None, first_run_state) \<and>
   generate_processed_copies example_self (disk first_run_state) = Inr (None, second_run_state) \<and>
   \<not> retag example_self \<and>
   calls second_run_state =
     [ConvertCall ''/photos'' ''b.tif'' (converted_name ''b''), ReadCall ''b.tif'' ''/photos''] \<and>
   generate_processed_copies shared_self out_fs = Inr (None, shared_first_state) \<and>
   generate_processed_copies shared_self (disk shared_first_state) =
     Inr (None, shared_second_state) \<and>
   \<not> retag shared_self \<and>
   calls shared_second_state =
     [ConvertCall ''/processed'' shared_name shared_name2, ReadCall shared_name ''/processed''] \<and>
   generate_processed_copies (example_self\<lparr>ORIGINAL_IMAGE_PATHS := [''/missing'', ''/photos'']\<rparr>)
     photos_fs = Inr (Some OSError, initial_state photos_fs) \<and>
   generate_processed_copies (example_self\<lparr>PROCESSED_IMAGE_PATH := ''/nowhere''\<rparr>) photos_fs =
     Inr (Some TypeError, initial_state photos_fs) \<and>
   yielded (initial_state photos_fs) = [] \<and>
   plain_names photos_fs ''/photos'' = [''a.tif'', ''b.tif'', ''c.tif'']"
proof -
  have "disk first_run_state = photos_fs_after" by (simp add: first_run_state_def)
  then show ?thesis
    by (simp add: example_first_run example_second_run example_shared_first_run
          example_shared_second_run example_missing_directory example_missing_output)
       (simp add: example_self_def second_run_state_def shared_self_def shared_second_state_def
          initial_state_def plain_names_def get_filenames_eq photos_fs_def os_path_isdir_def)
qed

section \<open>Retagging a converted file\<close>

text \<open>
  Claim C6, as amended. With \<^verbatim>\<open>retag\<close> set, for a file whose converted name is in the listing
  of the output directory, the loop body does not call \<^verbatim>\<open>convert_format\<close> and stores the
  pass-through record; it calls \<^verbatim>\<open>read_iptc_tags\<close> on the source, and then
  \<^verbatim>\<open>write_iptc_tags\<close> on the converted file once for each record read that has a non-empty
  tag list (not at all when the read fails or no record has tags).
\<close>

theorem retag_existing_file:
  assumes rt: "retag self"
    and mem: "new_filename_of h f (CONVERSION_FORMAT self) \<in> set existing"
    and nd: "\<not> os_path_isdir (disk st) d f"
    and fb: "file_body self (Some existing) d h f st = (e, st')"
  shows "e = None \<and>
     filter is_convert (calls st') = filter is_convert (calls st) \<and>
     conversion_data (processed_data st') =
       Some \<lparr>orig_path = d, processed_path = PROCESSED_IMAGE_PATH self,
             filename = new_filename_of h f (CONVERSION_FORMAT self)\<rparr> \<and>
     calls st' = calls st @ ReadCall f d #
       map (\<lambda>t. WriteCall (PROCESSED_IMAGE_PATH self) (new_filename_of h f (CONVERSION_FORMAT self))
                   (t\<lparr>tags := tags t @ [PROVENANCE]\<rparr>))
         (filter (\<lambda>t. tags t \<noteq> [])
            (case read_iptc_tags (disk st) f d of Inr (Some tag_list) \<Rightarrow> tag_list | _ \<Rightarrow> []))"
proof -
  let ?new = "new_filename_of h f (CONVERSION_FORMAT self)"
  let ?st1 = "st\<lparr>processed_data := (processed_data st)
                  \<lparr>conversion_data := Some \<lparr>orig_path = d, processed_path = PROCESSED_IMAGE_PATH self,
                                            filename = ?new\<rparr>\<rparr>,
                calls := calls st @ [ReadCall f d]\<rparr>"
  obtain r where rd: "read_iptc_tags (disk st) f d = Inr r"
    by (simp add: read_iptc_tags_eq)
  obtain st2 where tl: "tag_loop self ?new (case r of Some tag_list \<Rightarrow> tag_list | None \<Rightarrow> []) ?st1 = (None, st2)"
    and c2: "calls st2 = calls ?st1 @
        map (\<lambda>t. WriteCall (PROCESSED_IMAGE_PATH self) ?new (t\<lparr>tags := tags t @ [PROVENANCE]\<rparr>))
          (filter (\<lambda>t. tags t \<noteq> []) (case r of Some tag_list \<Rightarrow> tag_list | None \<Rightarrow> []))"
    and cd2: "conversion_data (processed_data st2) = conversion_data (processed_data ?st1)"
    using tag_loop_calls [of self ?new "case r of Some tag_list \<Rightarrow> tag_list | None \<Rightarrow> []" ?st1]
    by blast
  have body: "file_body self (Some existing) d h f st =
      (None, st2\<lparr>yielded := yielded st2 @ [processed_data st2]\<rparr>)"
  proof (cases r)
    case None
    with tl have "st2 = ?st1" by simp
    with None rt mem nd rd show ?thesis
      by (simp add: file_body_def convert_or_skip_def tag_or_skip_def Let_def)
  next
    case (Some tag_list)
    show ?thesis
    proof (cases tag_list)
      case Nil
      with Some tl have "st2 = ?st1" by simp
      with Nil Some rt mem nd rd show ?thesis
        by (simp add: file_body_def convert_or_skip_def tag_or_skip_def Let_def)
    next
      case (Cons t ts)
      with Some tl rt mem nd rd show ?thesis
        by (simp add: file_body_def convert_or_skip_def tag_or_skip_def Let_def)
    qed
  qed
  have conv_same: "filter is_convert (calls st2) = filter is_convert (calls st)"
    by (simp add: c2 filter_map comp_def)
  from fb body c2 cd2 rd conv_same show ?thesis
    by (cases r) auto
qed

theorem retag_existing_file_witness:
  "(\<exists>st'. file_body (example_self\<lparr>retag := True\<rparr>) (Some [converted_name ''a'', converted_name ''c''])
            ''/photos'' (sha1_hexdigest ''/photos'') ''a.tif'' (initial_state photos_fs_after) = (None, st') \<and>
          conversion_data (processed_data st') = conv ''a'' \<and>
          calls st' = [ReadCall ''a.tif'' ''/photos'',
                       WriteCall ''/processed'' (converted_name ''a'') moon_record])"
proof -
  have new: "new_filename_of (sha1_hexdigest ''/photos'') ''a.tif'' ''jpg'' = converted_name ''a''"
    by (simp add: new_name_a converted_name_def)
  have rt: "retag (example_self\<lparr>retag := True\<rparr>)" by simp
  have mem: "new_filename_of (sha1_hexdigest ''/photos'') ''a.tif''
      (CONVERSION_FORMAT (example_self\<lparr>retag := True\<rparr>)) \<in> set [converted_name ''a'', converted_name ''c'']"
    by (simp add: new example_self_def)
  have nd: "\<not> os_path_isdir (disk (initial_state photos_fs_after)) ''/photos'' ''a.tif''"
    by (simp add: initial_state_def photos_fs_after_def os_path_isdir_def)
  have rd: "read_iptc_tags (disk (initial_state photos_fs_after)) ''a.tif'' ''/photos'' =
      Inr (Some [\<lparr>iptc_key = KEYWORDS, tags = moon_tags\<rparr>])"
    by (simp add: initial_state_def photos_fs_after_def read_iptc_tags_eq ImageMetadata_read_def
          lookup_file_def example_defs)
  obtain e st' where fb:
    "file_body (example_self\<lparr>retag := True\<rparr>) (Some [converted_name ''a'', converted_name ''c''])
       ''/photos'' (sha1_hexdigest ''/photos'') ''a.tif'' (initial_state photos_fs_after) = (e, st')"
    by (meson surj_pair)
  show ?thesis
    using retag_existing_file [OF rt mem nd fb] fb rd new
    by (simp add: example_self_def initial_state_def conv_def moon_record_def moon_tags_def)
qed

text \<open>
  The claim as stated fails for a file without tags: \<^verbatim>\<open>c.tif\<close> is converted already and
  \<^verbatim>\<open>retag\<close> is set, yet the only write of the run is the one for \<^verbatim>\<open>a.tif\<close>.
\<close>

theorem retag_no_write_without_tags:
  "generate_processed_copies (example_self\<lparr>retag := True\<rparr>) photos_fs_after =
     Inr (None, retag_run_state) \<and>
   converted_name ''c'' \<in> set (plain_names photos_fs_after ''/processed'') \<and>
   filter is_write (calls retag_run_state) =
     [WriteCall ''/processed'' (converted_name ''a'') moon_record]"
  by (simp add: example_retag_run)
     (simp add: retag_run_state_def plain_names_def get_filenames_eq photos_fs_after_def
        os_path_isdir_def converted_name_def)

section \<open>The record yielded after a failed read\<close>

text \<open>
  Claim C5. The claim asks for an empty metadata record in the result of a file whose
  metadata cannot be read. The code does not deliver it: \<^verbatim>\<open>processed_data['tag_data']\<close> is
  set to the empty record once, before the loops, and a failed read leaves it as the
  previous file set it. In the run over the three example files the read of \<^verbatim>\<open>b.tif\<close>
  fails, and the record yielded for it carries the tags of \<^verbatim>\<open>a.tif\<close>.
\<close>

theorem stale_tag_data_after_failed_read:
  "generate_processed_copies example_self photos_fs = Inr (None, first_run_state) \<and>
   read_iptc_tags photos_fs ''b.tif'' ''/photos'' = Inr None \<and>
   tag_data (yielded first_run_state ! 1) =
     \<lparr>iptc_key = ''Iptc.Application2.Keywords'',
      tags = [''DATE: 1974'', ''PLACE: The Moon'', ''SPM: TAGS COPIED FROM ORIGINAL'']\<rparr>"
  by (simp add: example_first_run)
     (simp add: first_run_state_def moon_record_def read_iptc_tags_eq ImageMetadata_read_def
        lookup_file_def photos_fs_def example_defs PROVENANCE_def)

section \<open>Converted names\<close>

lemma sha1_photos_a: "sha1_hexdigest ''/photos/a'' = ''2b6e3e85012c58614739e177b5617f97bc6e9cac''"
  by (simp add: sha1_eval)

lemma sha1_photos_b: "sha1_hexdigest ''/photos/b'' = ''f1b9251f8efeb493e3ad3491a9fa6a6a6b108cbb''"
  by (simp add: sha1_eval)

text \<open>
  The converted name is the 40 hexadecimal digits of the SHA-1 digest of the directory's
  path string, an underscore, the base name, a dot and the format; it is a function of
  these. For the same file name, the names for two directories are equal exactly when the
  digests of the two path strings are. When the digests differ (and the file name and
  format are well formed) the two conversions write two different files of the output
  directory, and the second leaves the first as it was.
\<close>

lemma converted_name_by_digest:
  "new_filename_of (sha1_hexdigest d1) f fmt =
     sha1_hexdigest d1 @ ''_'' @ fst (splitext f) @ ''.'' @ fmt \<and>
   length (sha1_hexdigest d1) = 40 \<and> set (sha1_hexdigest d1) \<subseteq> set ''0123456789abcdef'' \<and>
   (new_filename_of (sha1_hexdigest d1) f fmt = new_filename_of (sha1_hexdigest d2) f fmt \<longleftrightarrow>
      sha1_hexdigest d1 = sha1_hexdigest d2) \<and>
   (sha1_hexdigest d1 \<noteq> sha1_hexdigest d2 \<and> CHR ''/'' \<notin> set f \<and> plain_format fmt \<and>
    convert_format fs f (new_filename_of (sha1_hexdigest d1) f fmt) d1 out fmt = Inr (Some c1, fs1) \<and>
    convert_format fs1 f (new_filename_of (sha1_hexdigest d2) f fmt) d2 out fmt = Inr (Some c2, fs2) \<longrightarrow>
      filename c1 = new_filename_of (sha1_hexdigest d1) f fmt \<and>
      filename c2 = new_filename_of (sha1_hexdigest d2) f fmt \<and>
      filename c1 \<noteq> filename c2 \<and>
      lookup_file fs2 out (filename c1) = lookup_file fs1 out (filename c1) \<and>
      lookup_file fs2 out (filename c1) \<noteq> None \<and>
      lookup_file fs2 out (filename c2) \<noteq> None)"
proof -
  have a: "new_filename_of (sha1_hexdigest d1) f fmt =
     sha1_hexdigest d1 @ ''_'' @ fst (splitext f) @ ''.'' @ fmt"
    by (simp add: new_filename_of_def)
  have b: "length (sha1_hexdigest d1) = 40 \<and> set (sha1_hexdigest d1) \<subseteq> set ''0123456789abcdef''"
    using sha1_hexdigest_shape [of d1] by (simp only: hex_chars_def)
  have c: "new_filename_of (sha1_hexdigest d1) f fmt = new_filename_of (sha1_hexdigest d2) f fmt \<longleftrightarrow>
      sha1_hexdigest d1 = sha1_hexdigest d2"
    by (simp add: new_filename_of_def)
  have d: "filename c1 = new_filename_of (sha1_hexdigest d1) f fmt \<and>
      filename c2 = new_filename_of (sha1_hexdigest d2) f fmt \<and>
      filename c1 \<noteq> filename c2 \<and>
      lookup_file fs2 out (filename c1) = lookup_file fs1 out (filename c1) \<and>
      lookup_file fs2 out (filename c1) \<noteq> None \<and>
      lookup_file fs2 out (filename c2) \<noteq> None"
    if ne: "sha1_hexdigest d1 \<noteq> sha1_hexdigest d2" and wf: "CHR ''/'' \<notin> set f" "plain_format fmt"
      and c1: "convert_format fs f (new_filename_of (sha1_hexdigest d1) f fmt) d1 out fmt = Inr (Some c1, fs1)"
      and c2: "convert_format fs1 f (new_filename_of (sha1_hexdigest d2) f fmt) d2 out fmt = Inr (Some c2, fs2)"
  proof -
    let ?n1 = "new_filename_of (sha1_hexdigest d1) f fmt"
    let ?n2 = "new_filename_of (sha1_hexdigest d2) f fmt"
    note o1 = outfile_is_new_filename [OF wf, of d1, simplified]
    note o2 = outfile_is_new_filename [OF wf, of d2, simplified]
    from c1 o1 have s1: "Image_open_save fs d1 f out ?n1 = (None, fs1)" and f1: "filename c1 = ?n1"
      by (auto simp: convert_format_eq split: prod.splits option.splits)
    from c2 o2 have s2: "Image_open_save fs1 d2 f out ?n2 = (None, fs2)" and f2: "filename c2 = ?n2"
      by (auto simp: convert_format_eq split: prod.splits option.splits)
    from ne c have nn: "?n1 \<noteq> ?n2" by simp
    from extends_Image_open_save [OF s1] have p1: "lookup_file fs1 out ?n1 \<noteq> None" by simp
    from extends_Image_open_save [OF s2] have p2: "lookup_file fs2 out ?n2 \<noteq> None" by simp
    from s2 nn have keep: "lookup_file fs2 out ?n1 = lookup_file fs1 out ?n1"
      by (auto simp: Image_open_save_def lookup_store_file split: option.splits if_splits)
    from f1 f2 nn p1 p2 keep show ?thesis by simp
  qed
  from a b c d show ?thesis by blast
qed

text \<open>
  The directories \<^verbatim>\<open>/photos/a\<close> and \<^verbatim>\<open>/photos/b\<close>, each with a file \<^verbatim>\<open>photo.tif\<close>: the two
  converted names differ, and both converted files are there after the two conversions.
\<close>

lemma converted_names_two_dirs:
  "new_filename_of (sha1_hexdigest ''/photos/a'') ''photo.tif'' ''jpg'' =
     ''2b6e3e85012c58614739e177b5617f97bc6e9cac_photo.jpg'' \<and>
   new_filename_of (sha1_hexdigest ''/photos/b'') ''photo.tif'' ''jpg'' =
     ''f1b9251f8efeb493e3ad3491a9fa6a6a6b108cbb_photo.jpg'' \<and>
   (\<exists>c1 fs1 c2 fs2.
      convert_format two_dirs_fs ''photo.tif''
        (new_filename_of (sha1_hexdigest ''/photos/a'') ''photo.tif'' ''jpg'')
        ''/photos/a'' ''/processed'' ''jpg'' = Inr (Some c1, fs1) \<and>
      convert_format fs1 ''photo.tif''
        (new_filename_of (sha1_hexdigest ''/photos/b'') ''photo.tif'' ''jpg'')
        ''/photos/b'' ''/processed'' ''jpg'' = Inr (Some c2, fs2) \<and>
      filename c1 \<noteq> filename c2 \<and>
      lookup_file fs2 ''/processed'' (filename c1) \<noteq> None \<and>
      lookup_file fs2 ''/processed'' (filename c2) \<noteq> None)"
proof -
  let ?n1 = "new_filename_of (sha1_hexdigest ''/photos/a'') ''photo.tif'' ''jpg''"
  let ?n2 = "new_filename_of (sha1_hexdigest ''/photos/b'') ''photo.tif'' ''jpg''"
  have sp: "fst (splitext ''photo.tif'') = ''photo''"
    by (simp add: splitext_def rfind_def splitext_scan.simps)
  have n1: "?n1 = ''2b6e3e85012c58614739e177b5617f97bc6e9cac_photo.jpg''"
    by (simp add: new_filename_of_def sha1_photos_a sp)
  have n2: "?n2 = ''f1b9251f8efeb493e3ad3491a9fa6a6a6b108cbb_photo.jpg''"
    by (simp add: new_filename_of_def sha1_photos_b sp)
  have ne: "sha1_hexdigest ''/photos/a'' \<noteq> sha1_hexdigest ''/photos/b''"
    by (simp add: sha1_photos_a sha1_photos_b)
  have wf: "CHR ''/'' \<notin> set ''photo.tif''" "plain_format ''jpg''"
    by (simp_all add: plain_format_def)
  note o1 = outfile_is_new_filename [OF wf, of "''/photos/a''", simplified]
  note o2 = outfile_is_new_filename [OF wf, of "''/photos/b''", simplified]
  let ?fs1 = "store_file two_dirs_fs ''/processed'' ?n1 (pil_encode tagged_image)"
  let ?fs2 = "store_file ?fs1 ''/processed'' ?n2 (pil_encode bare_image)"
  let ?c1 = "\<lparr>orig_path = ''/photos/a'', processed_path = ''/processed'', filename = ?n1\<rparr>"
  let ?c2 = "\<lparr>orig_path = ''/photos/b'', processed_path = ''/processed'', filename = ?n2\<rparr>"
  have e1: "convert_format two_dirs_fs ''photo.tif'' ?n1 ''/photos/a'' ''/processed'' ''jpg'' =
      Inr (Some ?c1, ?fs1)"
    by (simp add: convert_format_eq o1 Image_open_save_def lookup_file_def os_path_isdir_def
          two_dirs_fs_def tagged_image_def)
  have l2: "lookup_file ?fs1 ''/photos/b'' ''photo.tif'' = Some bare_image"
    by (simp add: lookup_store_file) (simp add: lookup_file_def two_dirs_fs_def)
  have d2: "?fs1 ''/processed'' \<noteq> None" "\<not> os_path_isdir ?fs1 ''/processed'' ?n2"
    using n1 n2 by (simp_all add: store_file_def two_dirs_fs_def os_path_isdir_def)
  have e2: "convert_format ?fs1 ''photo.tif'' ?n2 ''/photos/b'' ''/processed'' ''jpg'' =
      Inr (Some ?c2, ?fs2)"
    using l2 d2 by (simp add: convert_format_eq o2 Image_open_save_def bare_image_def)
  from converted_name_by_digest [of "''/photos/a''" "''photo.tif''" "''jpg''" "''/photos/b''"
      two_dirs_fs "''/processed''" ?c1 ?fs1 ?c2 ?fs2] ne wf e1 e2
  have "filename ?c1 \<noteq> filename ?c2 \<and>
      lookup_file ?fs2 ''/processed'' (filename ?c1) \<noteq> None \<and>
      lookup_file ?fs2 ''/processed'' (filename ?c2) \<noteq> None"
    by blast
  with e1 e2 n1 n2 show ?thesis by blast
qed

text \<open>
  That the names differ for every two distinct directories is the statement that SHA-1 has
  no collision among path strings. This cannot be proved of the function: there are more
  path strings than digests, so some two different strings have the same digest; the
  counting argument names no such pair. What the prefix gives is that such a pair is
  infeasible to find, which is no statement about the values of the function.
\<close>

lemma digest_not_injective:
  "\<exists>d1 d2. d1 \<noteq> d2 \<and> set d1 \<subseteq> {CHR ''a'', CHR ''b''} \<and> set d2 \<subseteq> {CHR ''a'', CHR ''b''} \<and>
     length d1 = 161 \<and> length d2 = 161 \<and> sha1_hexdigest d1 = sha1_hexdigest d2"
proof -
  let ?A = "{xs. set xs \<subseteq> {CHR ''a'', CHR ''b''} \<and> length xs = 161}"
  let ?B = "{ys. set ys \<subseteq> set hex_chars \<and> length ys = 40}"
  have two: "card {CHR ''a'', CHR ''b''} = (2::nat)" by simp
  have "card ?A = card {CHR ''a'', CHR ''b''} ^ 161"
    by (rule card_lists_length_eq) simp
  then have cardA: "card ?A = 2 ^ 161"
    by (simp only: two)
  have finB: "finite ?B" by (rule finite_lists_length_eq) simp
  have "card (set hex_chars) \<le> 16"
    using card_length [of hex_chars] by (simp add: hex_chars_def)
  then have "card (set hex_chars) ^ 40 \<le> (16::nat) ^ 40"
    by (rule power_mono) simp
  moreover have "card ?B = card (set hex_chars) ^ 40"
    by (rule card_lists_length_eq) simp
  ultimately have cardB: "card ?B \<le> 16 ^ 40"
    by (simp only:)
  have sub: "sha1_hexdigest ` ?A \<subseteq> ?B"
    using sha1_hexdigest_shape by auto
  have "card (sha1_hexdigest ` ?A) \<le> card ?B"
    using sub finB by (rule card_mono [rotated])
  also note cardB
  also have "(16::nat) ^ 40 < 2 ^ 161" by simp
  finally have "card (sha1_hexdigest ` ?A) < card ?A"
    by (simp only: cardA)
  then have "\<not> inj_on sha1_hexdigest ?A"
    by (rule pigeonhole)
  then show ?thesis
    unfolding inj_on_def by blast
qed

end
